theory Spec2Isabelle
  imports Complex_Main
begin

section \<open>JavaScript strings\<close>

text \<open>
  The service is \<^verbatim>\<open>backend/services/nlpService.js\<close>. A JavaScript string is a sequence
  of UTF-16 code units; here a text is a \<^typ>\<open>string\<close> whose characters stand for the code
  units 0..255 of the same number (ASCII and the Latin-1 supplement). On that range
  \<^verbatim>\<open>toLowerCase\<close> works code unit by code unit, and the white space that \<^verbatim>\<open>trim\<close>
  and the regular expression class \<^verbatim>\<open>\s\<close> recognise is TAB, LF, VT, FF, CR, SPACE and
  NBSP.
\<close>

definition isWhiteSpace :: "char \<Rightarrow> bool" where
  "isWhiteSpace c \<longleftrightarrow>
     c = CHR 0x09 \<or> c = CHR 0x0A \<or> c = CHR 0x0B \<or> c = CHR 0x0C \<or> c = CHR 0x0D \<or>
     c = CHR 0x20 \<or> c = CHR 0xA0"

definition isUpper :: "char \<Rightarrow> bool" where
  "isUpper c \<longleftrightarrow>
     (let n = (of_char c :: nat)
      in (65 \<le> n \<and> n \<le> 90) \<or> (192 \<le> n \<and> n \<le> 222 \<and> n \<noteq> 215))"

definition toLowerChar :: "char \<Rightarrow> char" where
  "toLowerChar c = (if isUpper c then char_of ((of_char c :: nat) + 32) else c)"

definition toLowerCase :: "string \<Rightarrow> string" where
  "toLowerCase s = map toLowerChar s"

definition trim :: "string \<Rightarrow> string" where
  "trim s = rev (dropWhile isWhiteSpace (rev (dropWhile isWhiteSpace s)))"

text \<open>
  \<^verbatim>\<open>s.startsWith(p)\<close> and \<^verbatim>\<open>s.includes(sub)\<close>: \<open>sub\<close> starts at some position
  of \<open>s\<close>, the first position tried first.
\<close>

fun startsWith :: "string \<Rightarrow> string \<Rightarrow> bool" where
  "startsWith s [] = True"
| "startsWith [] (p # ps) = False"
| "startsWith (c # cs) (p # ps) = (if c = p then startsWith cs ps else False)"

fun includesStr :: "string \<Rightarrow> string \<Rightarrow> bool" where
  "includesStr [] sub = (sub = [])"
| "includesStr (c # cs) sub = (if startsWith (c # cs) sub then True else includesStr cs sub)"

text \<open>
  \<^verbatim>\<open>s.split(sep)\<close> for a one-character separator: the pieces between the separators,
  at least one piece (\<^verbatim>\<open>''.split('\n')\<close> is \<^verbatim>\<open>['']\<close>).
\<close>

fun split :: "char \<Rightarrow> string \<Rightarrow> string list" where
  "split sep [] = [[]]"
| "split sep (c # cs) =
     (if c = sep then [] # split sep cs
      else (case split sep cs of [] \<Rightarrow> [[c]] | p # ps \<Rightarrow> (c # p) # ps))"

text \<open>\<^verbatim>\<open>parts.join(sep)\<close>.\<close>

fun join :: "string \<Rightarrow> string list \<Rightarrow> string" where
  "join sep [] = []"
| "join sep [p] = p"
| "join sep (p # q # ps) = p @ sep @ join sep (q # ps)"

text \<open>\<^verbatim>\<open>x || d\<close> on strings: the empty string is falsy.\<close>

definition orElse :: "string \<Rightarrow> string \<Rightarrow> string" where
  "orElse x d = (if x = [] then d else x)"

section \<open>Skill taxonomy matcher\<close>

definition technicalSkills :: "string list" where
  "technicalSkills =
    [''JavaScript'', ''Python'', ''Java'', ''C'', ''C++'', ''SQL'', ''R'', ''MATLAB'',
     ''React'', ''Node.js'', ''Express.js'', ''MongoDB'', ''HTML'', ''CSS'', ''TypeScript'',
     ''Redux'', ''REST API'', ''GraphQL'', ''Git'', ''GitHub'', ''GitLab'', ''Docker'',
     ''Kubernetes'', ''AWS'', ''Azure'', ''Google Cloud'', ''Firebase'', ''OpenCV'',
     ''TensorFlow'', ''PyTorch'', ''Machine Learning'', ''Deep Learning'',
     ''Natural Language Processing'', ''Computer Vision'', ''Data Analysis'',
     ''Data Visualization'', ''Pandas'', ''NumPy'', ''Scikit-learn'', ''Tableau'',
     ''Power BI'', ''Agile'', ''Scrum'', ''Kanban'', ''CI/CD'', ''Linux'',
     ''Shell Scripting'', ''Cybersecurity'', ''Networking'', ''Cloud Computing'',
     ''System Design'', ''OOP'', ''Functional Programming'', ''Data Structures'',
     ''Algorithms'', ''Database Management'', ''Software Testing'', ''Unit Testing'',
     ''Integration Testing'', ''UI/UX'', ''Figma'', ''Wireframing'', ''API Integration'',
     ''Microservices'', ''DevOps'']"

text \<open>
  \<^verbatim>\<open>extractSkillsFromText\<close>: the \<^verbatim>\<open>forEach\<close> over the taxonomy pushes every skill
  whose lower-cased form the lower-cased text includes; \<open>foundSkills\<close> is the array the
  loop leaves.
\<close>

definition pushSkill :: "string \<Rightarrow> string list \<Rightarrow> string \<Rightarrow> string list" where
  "pushSkill lowerText foundSkills skill =
     (if includesStr lowerText (toLowerCase skill) then foundSkills @ [skill] else foundSkills)"

definition foundSkills :: "string \<Rightarrow> string list" where
  "foundSkills text = foldl (pushSkill (toLowerCase text)) [] technicalSkills"

definition extractSkillsFromText :: "string \<Rightarrow> string list" where
  "extractSkillsFromText text =
     (if length (foundSkills text) > 0 then foundSkills text
      else [''JavaScript'', ''React'', ''Node.js''])"

section \<open>Regular expressions\<close>

text \<open>
  Every pattern of the service is a sequence of one-character classes, each taken once,
  optionally (\<^verbatim>\<open>?\<close>) or at least \<open>n\<close> times (\<^verbatim>\<open>+\<close>, \<^verbatim>\<open>{10,}\<close>). The quantifiers are
  greedy: the engine takes the longest run first and gives characters back, one at a
  time, while the rest of the pattern fails.
\<close>

datatype piece = One "char \<Rightarrow> bool" | Opt "char \<Rightarrow> bool" | AtLeast nat "char \<Rightarrow> bool"

text \<open>
  \<open>matchHere ps s\<close>: the match of the pattern at the start of \<open>s\<close> and the text after
  it, by backtracking in the engine's order.
\<close>

fun matchHere :: "piece list \<Rightarrow> string \<Rightarrow> (string \<times> string) option" where
  "matchHere [] s = Some ([], s)"
| "matchHere (One p # ps) [] = None"
| "matchHere (One p # ps) (c # cs) =
     (if p c then map_option (\<lambda>(m, r). (c # m, r)) (matchHere ps cs) else None)"
| "matchHere (Opt p # ps) [] = matchHere ps []"
| "matchHere (Opt p # ps) (c # cs) =
     (if p c then
        (case matchHere ps cs of
           Some (m, r) \<Rightarrow> Some (c # m, r)
         | None \<Rightarrow> matchHere ps (c # cs))
      else matchHere ps (c # cs))"
| "matchHere (AtLeast 0 p # ps) [] = matchHere ps []"
| "matchHere (AtLeast 0 p # ps) (c # cs) =
     (if p c then
        (case matchHere (AtLeast 0 p # ps) cs of
           Some (m, r) \<Rightarrow> Some (c # m, r)
         | None \<Rightarrow> matchHere ps (c # cs))
      else matchHere ps (c # cs))"
| "matchHere (AtLeast (Suc n) p # ps) [] = None"
| "matchHere (AtLeast (Suc n) p # ps) (c # cs) =
     (if p c then map_option (\<lambda>(m, r). (c # m, r)) (matchHere (AtLeast n p # ps) cs)
      else None)"

text \<open>
  \<open>search ps s\<close>: the first start position with a match, left to right (the end of the
  text included): the text before the match, the match, the text after it.
\<close>

fun search :: "piece list \<Rightarrow> string \<Rightarrow> (string \<times> string \<times> string) option" where
  "search ps [] = map_option (\<lambda>(m, r). ([], m, r)) (matchHere ps [])"
| "search ps (c # cs) =
     (case matchHere ps (c # cs) of
        Some (m, r) \<Rightarrow> Some ([], m, r)
      | None \<Rightarrow> map_option (\<lambda>(b, m, a). (c # b, m, a)) (search ps cs))"

text \<open>\<^verbatim>\<open>s.match(re)\<close> for a pattern without the \<^verbatim>\<open>g\<close> flag: \<^verbatim>\<open>null\<close> or the match.\<close>

definition matchFirst :: "piece list \<Rightarrow> string \<Rightarrow> string option" where
  "matchFirst ps s = map_option (\<lambda>(b, m, a). m) (search ps s)"

text \<open>\<^verbatim>\<open>s.replace(re, r)\<close> for a pattern without the \<^verbatim>\<open>g\<close> flag.\<close>

definition replaceFirst :: "piece list \<Rightarrow> string \<Rightarrow> string \<Rightarrow> string" where
  "replaceFirst ps s r = (case search ps s of None \<Rightarrow> s | Some (b, m, a) \<Rightarrow> b @ r @ a)"

subsection \<open>Character classes\<close>

definition isDigit :: "char \<Rightarrow> bool" where
  "isDigit c \<longleftrightarrow> (let n = (of_char c :: nat) in 48 \<le> n \<and> n \<le> 57)"

text \<open>\<^verbatim>\<open>\w\<close>: the ASCII letters, the digits and the underscore.\<close>

definition isWord :: "char \<Rightarrow> bool" where
  "isWord c \<longleftrightarrow>
     (let n = (of_char c :: nat)
      in (97 \<le> n \<and> n \<le> 122) \<or> (65 \<le> n \<and> n \<le> 90) \<or> (48 \<le> n \<and> n \<le> 57) \<or> n = 95)"

text \<open>A literal character, and a literal character under the \<^verbatim>\<open>i\<close> flag.\<close>

definition lit :: "char \<Rightarrow> char \<Rightarrow> bool" where
  "lit l c \<longleftrightarrow> c = l"

definition litIgnoreCase :: "char \<Rightarrow> char \<Rightarrow> bool" where
  "litIgnoreCase l c \<longleftrightarrow> toLowerChar c = toLowerChar l"

text \<open>\<^verbatim>\<open>/[\w\.-]+@[\w\.-]+\.\w+/\<close>\<close>

definition emailChar :: "char \<Rightarrow> bool" where
  "emailChar c \<longleftrightarrow> isWord c \<or> c = CHR ''.'' \<or> c = CHR ''-''"

definition emailPattern :: "piece list" where
  "emailPattern =
     [AtLeast 1 emailChar, One (lit CHR ''@''), AtLeast 1 emailChar, One (lit CHR ''.''),
      AtLeast 1 isWord]"

text \<open>\<^verbatim>\<open>/[\+]?[1-9]?[\s\-\(\)]?[\d\s\-\(\)]{10,}/\<close>\<close>

definition isNonZeroDigit :: "char \<Rightarrow> bool" where
  "isNonZeroDigit c \<longleftrightarrow> (let n = (of_char c :: nat) in 49 \<le> n \<and> n \<le> 57)"

definition phoneSeparator :: "char \<Rightarrow> bool" where
  "phoneSeparator c \<longleftrightarrow> isWhiteSpace c \<or> c = CHR ''-'' \<or> c = CHR ''('' \<or> c = CHR '')''"

definition phoneChar :: "char \<Rightarrow> bool" where
  "phoneChar c \<longleftrightarrow> isDigit c \<or> isWhiteSpace c \<or> c = CHR ''-'' \<or> c = CHR ''('' \<or> c = CHR '')''"

definition phonePattern :: "piece list" where
  "phonePattern =
     [Opt (lit CHR ''+''), Opt isNonZeroDigit, Opt phoneSeparator, AtLeast 10 phoneChar]"

text \<open>\<^verbatim>\<open>/linkedin\.com\/in\/[\w\-]+/i\<close>\<close>

definition handleChar :: "char \<Rightarrow> bool" where
  "handleChar c \<longleftrightarrow> isWord c \<or> c = CHR ''-''"

definition linkedinPattern :: "piece list" where
  "linkedinPattern = map (\<lambda>l. One (litIgnoreCase l)) ''linkedin.com/in/'' @ [AtLeast 1 handleChar]"

text \<open>\<^verbatim>\<open>/project/i\<close>\<close>

definition projectPattern :: "piece list" where
  "projectPattern = map (\<lambda>l. One (litIgnoreCase l)) ''project''"

section \<open>The candidate record\<close>

record experienceEntry =
  title :: string
  company :: string
  duration :: string
  description :: string

record educationEntry =
  degree :: string
  school :: string
  year :: string
  cgpa :: string
  stream :: string

record projectEntry =
  projectName :: string
  projectDescription :: string
  technologies :: "string list"

record candidateRecord =
  name :: string
  email :: string
  phone :: string
  linkedin :: string
  skills :: "string list"
  experience :: "experienceEntry list"
  education :: "educationEntry list"
  certifications :: "string list"
  projects :: "projectEntry list"

section \<open>Field extractors\<close>

text \<open>\<^verbatim>\<open>text.split('\n')\<close>\<close>

definition splitLines :: "string \<Rightarrow> string list" where
  "splitLines text = split CHR 0x0A text"

subsection \<open>Experience\<close>

definition mentionsPeriod :: "string \<Rightarrow> bool" where
  "mentionsPeriod line \<longleftrightarrow>
     includesStr line ''2019'' \<or> includesStr line ''2020'' \<or> includesStr line ''2021'' \<or>
     includesStr line ''2022'' \<or> includesStr line ''2023'' \<or> includesStr line ''Present''"

definition placeholderExperience :: experienceEntry where
  "placeholderExperience =
     \<lparr>title = ''Software Engineer'', company = ''Tech Company'', duration = ''2021 - Present'',
      description = ''Developed web applications using modern technologies''\<rparr>"

text \<open>The \<^verbatim>\<open>for\<close> loop over the lines; \<open>found\<close> is the array \<^verbatim>\<open>experience\<close> so far.\<close>

fun experienceLoop :: "string list \<Rightarrow> experienceEntry list \<Rightarrow> experienceEntry list" where
  "experienceLoop [] found = found"
| "experienceLoop (l # rest) found =
     (let line = trim l in
      if includesStr line ''|'' \<and> mentionsPeriod line then
        (let parts = map trim (split CHR ''|'' line) in
         if length parts \<ge> 3 then
           experienceLoop rest
             (found @
              [\<lparr>title = parts ! 0, company = parts ! 1, duration = parts ! 2,
                description = ''Developed and maintained software applications''\<rparr>])
         else experienceLoop rest found)
      else experienceLoop rest found)"

definition extractExperienceFromText :: "string \<Rightarrow> experienceEntry list" where
  "extractExperienceFromText text =
     (let found = experienceLoop (splitLines text) [] in
      if length found = 0 then found @ [placeholderExperience] else found)"

subsection \<open>Education\<close>

definition placeholderEducation :: educationEntry where
  "placeholderEducation =
     \<lparr>degree = ''Bachelor of Science'', school = ''University'', year = ''2020'',
      cgpa = ''3.5'', stream = ''Computer Science''\<rparr>"

text \<open>
  The loop pushes one entry at the first line that mentions a degree or a university and
  breaks; \<open>rest\<close> starts with \<^verbatim>\<open>lines[i + 1]\<close> when there is one.
\<close>

fun educationLoop :: "string list \<Rightarrow> educationEntry list" where
  "educationLoop [] = []"
| "educationLoop (l # rest) =
     (let line = trim l in
      if includesStr (toLowerCase line) ''bachelor'' \<or> includesStr (toLowerCase line) ''master'' \<or>
         includesStr (toLowerCase line) ''university''
      then
        (let nextLine = (case rest of [] \<Rightarrow> [] | n # _ \<Rightarrow> trim n) in
         [\<lparr>degree =
             (if includesStr line ''Bachelor'' then ''Bachelor of Science''
              else if includesStr line ''Master'' then ''Master of Science'' else ''Degree''),
           school = (if includesStr nextLine ''University'' then nextLine else ''University''),
           year = ''2020'', cgpa = ''3.5'', stream = ''Computer Science''\<rparr>])
      else educationLoop rest)"

definition extractEducationFromText :: "string \<Rightarrow> educationEntry list" where
  "extractEducationFromText text =
     (let found = educationLoop (splitLines text) in
      if length found = 0 then found @ [placeholderEducation] else found)"

subsection \<open>Certifications\<close>

definition certKeywords :: "string list" where
  "certKeywords = [''AWS'', ''Google Cloud'', ''MongoDB'', ''Scrum'', ''Certified'', ''Certificate'']"

definition pushCertification :: "string \<Rightarrow> string list \<Rightarrow> string \<Rightarrow> string list" where
  "pushCertification text found keyword =
     (if includesStr (toLowerCase text) (toLowerCase keyword)
      then found @ [keyword @ '' Certification''] else found)"

text \<open>\<^verbatim>\<open>[...new Set(xs)]\<close>: the first occurrence of every element, in order.\<close>

definition uniqueInOrder :: "'a list \<Rightarrow> 'a list" where
  "uniqueInOrder xs = foldl (\<lambda>seen x. if x \<in> set seen then seen else seen @ [x]) [] xs"

definition extractCertificationsFromText :: "string \<Rightarrow> string list" where
  "extractCertificationsFromText text =
     uniqueInOrder (foldl (pushCertification text) [] certKeywords)"

subsection \<open>Projects\<close>

definition placeholderProject :: projectEntry where
  "placeholderProject =
     \<lparr>projectName = ''Web Application'',
      projectDescription = ''Built a full-stack web application'',
      technologies = [''React'', ''Node.js'', ''MongoDB'']\<rparr>"

text \<open>
  \<open>rest\<close> holds the lines after \<^verbatim>\<open>lines[i]\<close>, so \<^verbatim>\<open>lines.slice(i + 1, i + 3)\<close> is
  \<open>take 2 rest\<close>.
\<close>

fun projectsLoop :: "string list \<Rightarrow> projectEntry list \<Rightarrow> projectEntry list" where
  "projectsLoop [] found = found"
| "projectsLoop (l # rest) found =
     (let line = trim l in
      if includesStr (toLowerCase line) ''project'' \<and> \<not> includesStr (toLowerCase line) ''projects:''
      then
        (let nextLines = filter (\<lambda>l. length l > 0) (map trim (take 2 rest)) in
         projectsLoop rest
           (found @
            [\<lparr>projectName = orElse (trim (replaceFirst projectPattern line [])) ''Software Project'',
              projectDescription =
                (case nextLines of
                   [] \<Rightarrow> ''Developed a software application''
                 | d # _ \<Rightarrow> orElse d ''Developed a software application''),
              technologies = take 3 (extractSkillsFromText (join '' '' nextLines))\<rparr>]))
      else projectsLoop rest found)"

definition extractProjectsFromText :: "string \<Rightarrow> projectEntry list" where
  "extractProjectsFromText text =
     (let found = projectsLoop (splitLines text) [] in
      if length found = 0 then found @ [placeholderProject] else found)"

section \<open>Fallback extraction pipeline\<close>

definition extractFallbackData :: "string \<Rightarrow> candidateRecord" where
  "extractFallbackData resumeText =
     (let lines = filter (\<lambda>line. length line > 0) (map trim (splitLines resumeText)) in
      \<lparr>name = (case lines of [] \<Rightarrow> ''Unknown'' | first # _ \<Rightarrow> orElse first ''Unknown''),
       email =
         (case matchFirst emailPattern resumeText of
            Some m \<Rightarrow> m | None \<Rightarrow> ''unknown@email.com''),
       phone =
         (case matchFirst phonePattern resumeText of
            Some m \<Rightarrow> m | None \<Rightarrow> ''Not provided''),
       linkedin =
         (case matchFirst linkedinPattern resumeText of
            Some m \<Rightarrow> ''https://'' @ m | None \<Rightarrow> []),
       skills = extractSkillsFromText resumeText,
       experience = extractExperienceFromText resumeText,
       education = extractEducationFromText resumeText,
       certifications = extractCertificationsFromText resumeText,
       projects = extractProjectsFromText resumeText\<rparr>)"

section \<open>JavaScript values\<close>

text \<open>
  What the completion endpoint and \<^verbatim>\<open>JSON.parse\<close> hand to the service: the values of
  JSON and \<^verbatim>\<open>undefined\<close>. A number is a finite double, read as the real it denotes, or
  an infinity (the value of a literal beyond the range of doubles); an object is the list
  of its own properties.
\<close>

datatype jsval =
    JUndefined
  | JNull
  | JBool bool
  | JNumber real
  | JInfinity bool
  | JString string
  | JArray "jsval list"
  | JObject "(string \<times> jsval) list"

datatype error = TypeError | SyntaxError

text \<open>The truthiness that \<^verbatim>\<open>||\<close> tests.\<close>

fun truthy :: "jsval \<Rightarrow> bool" where
  "truthy JUndefined = False"
| "truthy JNull = False"
| "truthy (JBool b) = b"
| "truthy (JNumber x) = (x \<noteq> 0)"
| "truthy (JInfinity negative) = True"
| "truthy (JString s) = (s \<noteq> [])"
| "truthy (JArray xs) = True"
| "truthy (JObject kvs) = True"

text \<open>\<^verbatim>\<open>v || d\<close>\<close>

definition orDefault :: "jsval \<Rightarrow> jsval \<Rightarrow> jsval" where
  "orDefault v d = (if truthy v then v else d)"

text \<open>
  \<^verbatim>\<open>v.key\<close> for the keys the service reads (\<^verbatim>\<open>choices\<close>, \<^verbatim>\<open>message\<close>, \<^verbatim>\<open>content\<close> and
  the fields of the record): none of them is inherited from a prototype, so the read
  gives an own property of an object and \<^verbatim>\<open>undefined\<close> on every other value, and
  throws a TypeError on \<^verbatim>\<open>undefined\<close> and \<^verbatim>\<open>null\<close>.
\<close>

fun getProp :: "jsval \<Rightarrow> string \<Rightarrow> error + jsval" where
  "getProp JUndefined key = Inl TypeError"
| "getProp JNull key = Inl TypeError"
| "getProp (JObject kvs) key = Inr (case map_of kvs key of None \<Rightarrow> JUndefined | Some v \<Rightarrow> v)"
| "getProp v key = Inr JUndefined"

text \<open>\<^verbatim>\<open>v?.key\<close>\<close>

fun optProp :: "jsval \<Rightarrow> string \<Rightarrow> jsval" where
  "optProp (JObject kvs) key = (case map_of kvs key of None \<Rightarrow> JUndefined | Some v \<Rightarrow> v)"
| "optProp v key = JUndefined"

text \<open>\<^verbatim>\<open>v[0]\<close>\<close>

fun elementZero :: "jsval \<Rightarrow> error + jsval" where
  "elementZero JUndefined = Inl TypeError"
| "elementZero JNull = Inl TypeError"
| "elementZero (JArray xs) = Inr (case xs of [] \<Rightarrow> JUndefined | x # _ \<Rightarrow> x)"
| "elementZero (JString s) = Inr (case s of [] \<Rightarrow> JUndefined | c # _ \<Rightarrow> JString [c])"
| "elementZero (JObject kvs) =
     Inr (case map_of kvs ''0'' of None \<Rightarrow> JUndefined | Some v \<Rightarrow> v)"
| "elementZero v = Inr JUndefined"

text \<open>\<^verbatim>\<open>Array.isArray(v) ? v : []\<close>\<close>

fun arrayOrEmpty :: "jsval \<Rightarrow> jsval list" where
  "arrayOrEmpty (JArray xs) = xs"
| "arrayOrEmpty v = []"

text \<open>
  The request to the completion endpoint: \<^verbatim>\<open>axios.post\<close> rejects (no connection, a
  timeout, a status outside 2xx) or resolves with a response whose \<^verbatim>\<open>data\<close> is the
  decoded body; a body that is not JSON stays the string it is.
\<close>

datatype outcome = Rejected | Resolved jsval

text \<open>\<^verbatim>\<open>response.data.choices[0]?.message?.content\<close>\<close>

definition messageContent :: "jsval \<Rightarrow> error + jsval" where
  "messageContent data =
     (case getProp data ''choices'' of
        Inl e \<Rightarrow> Inl e
      | Inr choices \<Rightarrow>
          (case elementZero choices of
             Inl e \<Rightarrow> Inl e
           | Inr choice \<Rightarrow> Inr (optProp (optProp choice ''message'') ''content'')))"

text \<open>
  The body of a completion as the endpoint documents it,
  \<^verbatim>\<open>{choices: [{message: {content: ...}}]}\<close>, around a given content.
\<close>

definition completionOf :: "jsval \<Rightarrow> jsval" where
  "completionOf content =
     JObject [(''choices'', JArray [JObject [(''message'', JObject [(''content'', content)])]])]"

text \<open>
  A stand-in for \<^verbatim>\<open>JSON.parse\<close> that knows one text: it decodes \<open>source\<close> to \<open>v\<close> and
  throws on every other argument.
\<close>

definition parsesTo :: "string \<Rightarrow> jsval \<Rightarrow> jsval \<Rightarrow> jsval option" where
  "parsesTo source v x = (if x = JString source then Some v else None)"

section \<open>LLM response protocol layer\<close>

text \<open>\<^verbatim>\<open>indexOf\<close> and \<^verbatim>\<open>lastIndexOf\<close> of a character: \<open>None\<close> is \<open>-1\<close>.\<close>

fun indexOf :: "string \<Rightarrow> char \<Rightarrow> nat option" where
  "indexOf [] x = None"
| "indexOf (c # cs) x = (if c = x then Some 0 else map_option Suc (indexOf cs x))"

definition lastIndexOf :: "string \<Rightarrow> char \<Rightarrow> nat option" where
  "lastIndexOf s x = map_option (\<lambda>i. length s - Suc i) (indexOf (rev s) x)"

text \<open>
  \<^verbatim>\<open>s.substring(a, b)\<close>: the two indices are clamped to the length and swapped when the
  first is the larger.
\<close>

definition substring :: "string \<Rightarrow> nat \<Rightarrow> nat \<Rightarrow> string" where
  "substring s a b = take (max a b - min a b) (drop (min a b) s)"

text \<open>
  \<^verbatim>\<open>cleanJsonResponse\<close>. On a string it slices; on \<^verbatim>\<open>undefined\<close>, \<^verbatim>\<open>null\<close> and every
  value without an \<^verbatim>\<open>indexOf\<close> method the call throws; an array has \<^verbatim>\<open>indexOf\<close> and
  \<^verbatim>\<open>lastIndexOf\<close> (they look for an element) and no \<^verbatim>\<open>substring\<close>.
\<close>

fun cleanJsonResponse :: "jsval \<Rightarrow> error + jsval" where
  "cleanJsonResponse (JString response) =
     (case (indexOf response CHR ''{'', lastIndexOf response CHR ''}'') of
        (Some jsonStart, Some jsonEnd) \<Rightarrow>
          Inr (JString (substring response jsonStart (jsonEnd + 1)))
      | _ \<Rightarrow> Inr (JString response))"
| "cleanJsonResponse (JArray xs) =
     (if JString ''{'' \<in> set xs \<and> JString ''}'' \<in> set xs then Inl TypeError
      else Inr (JArray xs))"
| "cleanJsonResponse v = Inl TypeError"

text \<open>The object the success path returns: its fields hold what the model sent.\<close>

record resumeObject =
  nameValue :: jsval
  emailValue :: jsval
  phoneValue :: jsval
  linkedinValue :: jsval
  skillsValue :: "jsval list"
  experienceValue :: "jsval list"
  educationValue :: "jsval list"
  certificationsValue :: "jsval list"
  projectsValue :: "jsval list"

text \<open>The record of the fallback path as the same kind of object.\<close>

definition experienceObject :: "experienceEntry \<Rightarrow> jsval" where
  "experienceObject e =
     JObject [(''title'', JString (title e)), (''company'', JString (company e)),
              (''duration'', JString (duration e)), (''description'', JString (description e))]"

definition educationObject :: "educationEntry \<Rightarrow> jsval" where
  "educationObject e =
     JObject [(''degree'', JString (degree e)), (''school'', JString (school e)),
              (''year'', JString (year e)), (''cgpa'', JString (cgpa e)),
              (''stream'', JString (stream e))]"

definition projectObject :: "projectEntry \<Rightarrow> jsval" where
  "projectObject p =
     JObject [(''name'', JString (projectName p)),
              (''description'', JString (projectDescription p)),
              (''technologies'', JArray (map JString (technologies p)))]"

definition asObject :: "candidateRecord \<Rightarrow> resumeObject" where
  "asObject r =
     \<lparr>nameValue = JString (name r), emailValue = JString (email r),
      phoneValue = JString (phone r), linkedinValue = JString (linkedin r),
      skillsValue = map JString (skills r),
      experienceValue = map experienceObject (experience r),
      educationValue = map educationObject (education r),
      certificationsValue = map JString (certifications r),
      projectsValue = map projectObject (projects r)\<rparr>"

text \<open>
  The \<^verbatim>\<open>try\<close> block of \<^verbatim>\<open>extractResumeData\<close> after the request has resolved.
  \<open>jsonParse\<close> is \<^verbatim>\<open>JSON.parse\<close> of the runtime (it turns its argument into a string
  first): \<open>None\<close> when it throws a SyntaxError. The object literal reads
  \<^verbatim>\<open>parsedData.name\<close> first, which throws when \<^verbatim>\<open>parsedData\<close> is \<^verbatim>\<open>null\<close>; once that
  read has passed, the reads of the other fields cannot throw.
\<close>

definition parsedResume :: "(jsval \<Rightarrow> jsval option) \<Rightarrow> jsval \<Rightarrow> error + resumeObject" where
  "parsedResume jsonParse data =
     (case messageContent data of
        Inl e \<Rightarrow> Inl e
      | Inr content \<Rightarrow>
          (case cleanJsonResponse content of
             Inl e \<Rightarrow> Inl e
           | Inr cleanedContent \<Rightarrow>
               (case jsonParse cleanedContent of
                  None \<Rightarrow> Inl SyntaxError
                | Some parsedData \<Rightarrow>
                    (case getProp parsedData ''name'' of
                       Inl e \<Rightarrow> Inl e
                     | Inr parsedName \<Rightarrow>
                         Inr \<lparr>nameValue = orDefault parsedName (JString ''Unknown''),
                              emailValue =
                                orDefault (optProp parsedData ''email'') (JString ''unknown@email.com''),
                              phoneValue =
                                orDefault (optProp parsedData ''phone'') (JString ''Not provided''),
                              linkedinValue = orDefault (optProp parsedData ''linkedin'') (JString []),
                              skillsValue = arrayOrEmpty (optProp parsedData ''skills''),
                              experienceValue = arrayOrEmpty (optProp parsedData ''experience''),
                              educationValue = arrayOrEmpty (optProp parsedData ''education''),
                              certificationsValue =
                                arrayOrEmpty (optProp parsedData ''certifications''),
                              projectsValue = arrayOrEmpty (optProp parsedData ''projects'')\<rparr>))))"

text \<open>\<^verbatim>\<open>extractResumeData\<close>: whatever the \<^verbatim>\<open>try\<close> block throws, the \<^verbatim>\<open>catch\<close> returns the
  fallback extraction of the same text.\<close>

definition extractResumeData ::
    "(jsval \<Rightarrow> jsval option) \<Rightarrow> outcome \<Rightarrow> string \<Rightarrow> resumeObject" where
  "extractResumeData jsonParse response resumeText =
     (case response of
        Rejected \<Rightarrow> asObject (extractFallbackData resumeText)
      | Resolved data \<Rightarrow>
          (case parsedResume jsonParse data of
             Inl e \<Rightarrow> asObject (extractFallbackData resumeText)
           | Inr r \<Rightarrow> r))"

section \<open>Candidate brief generator\<close>

text \<open>A number in a template literal: its decimal digits.\<close>

fun decimal :: "nat \<Rightarrow> string" where
  "decimal n =
     (if n < 10 then [char_of (48 + n)] else decimal (n div 10) @ [char_of (48 + n mod 10)])"

declare decimal.simps [simp del]

text \<open>The sentence of the \<^verbatim>\<open>catch\<close> block.\<close>

definition templateBrief :: "candidateRecord \<Rightarrow> string" where
  "templateBrief resumeData =
     name resumeData @ '' is a qualified '' @
     (case experience resumeData of
        [] \<Rightarrow> ''professional''
      | e # _ \<Rightarrow> orElse (title e) ''professional'') @
     '' with expertise in '' @ join '', '' (take 3 (skills resumeData)) @
     ''. They have '' @ decimal (length (experience resumeData)) @
     ''+ years of experience and hold a '' @
     (case education resumeData of [] \<Rightarrow> ''undefined'' | e # _ \<Rightarrow> degree e) @
     ''. Strong technical background with proven experience in software development and modern technologies. Excellent candidate for technical roles requiring '' @
     join '' and '' (take 2 (skills resumeData)) @ '' expertise.''"

text \<open>
  \<^verbatim>\<open>content?.trim()\<close>: \<^verbatim>\<open>undefined\<close> when there is no content, the trimmed string when
  the content is one, a TypeError on any other value (it has no \<^verbatim>\<open>trim\<close>).
\<close>

fun trimmed :: "jsval \<Rightarrow> error + jsval" where
  "trimmed JUndefined = Inr JUndefined"
| "trimmed JNull = Inr JUndefined"
| "trimmed (JString s) = Inr (JString (trim s))"
| "trimmed v = Inl TypeError"

text \<open>
  \<^verbatim>\<open>generateCandidateBrief\<close> on a record of the data model, after the request has
  settled.
\<close>

definition generateCandidateBrief :: "outcome \<Rightarrow> candidateRecord \<Rightarrow> jsval" where
  "generateCandidateBrief response resumeData =
     (case response of
        Rejected \<Rightarrow> JString (templateBrief resumeData)
      | Resolved data \<Rightarrow>
          (case messageContent data of
             Inl e \<Rightarrow> JString (templateBrief resumeData)
           | Inr content \<Rightarrow>
               (case trimmed content of
                  Inl e \<Rightarrow> JString (templateBrief resumeData)
                | Inr brief \<Rightarrow> brief)))"

section \<open>The service in its environment\<close>

text \<open>
  What a call into the service could consult besides its parameters: the clock and the
  random source of the runtime, the two fields that the constructor sets on the instance
  (\<^verbatim>\<open>this.apiKey\<close>, \<^verbatim>\<open>this.apiUrl\<close>), and the log that \<^verbatim>\<open>logger.error\<close> appends to. An
  action takes the world before the call and returns its result with the world after it.
\<close>

record world =
  clock :: nat
  randomSeed :: nat
  apiKey :: string
  apiUrl :: string
  errorLog :: "string list"

type_synonym 'a action = "world \<Rightarrow> 'a \<times> world"

definition unchanged :: "'a \<Rightarrow> 'a action" where
  "unchanged x w = (x, w)"

definition logError :: "string \<Rightarrow> unit action" where
  "logError message w = ((), w\<lparr>errorLog := errorLog w @ [message]\<rparr>)"

text \<open>
  \<^verbatim>\<open>extractFallbackData\<close> and the five extractors it calls read their parameter and their
  local variables only; they call one another and the built-in string, array and pattern
  operations; their patterns are literals without the \<^verbatim>\<open>g\<close> flag, created anew at each
  call. None reads the clock, the random source, a field of the instance or the log, and
  none assigns to anything but its locals.
\<close>

definition extractFallbackDataIn :: "string \<Rightarrow> candidateRecord action" where
  "extractFallbackDataIn resumeText = unchanged (extractFallbackData resumeText)"

text \<open>
  \<^verbatim>\<open>extractResumeData\<close>, by contrast, reads both fields of the instance for the request
  and writes the log in its \<^verbatim>\<open>catch\<close> block; \<open>post url key resumeText\<close> is what the
  request settles to.
\<close>

definition extractResumeDataIn ::
    "(jsval \<Rightarrow> jsval option) \<Rightarrow> (string \<Rightarrow> string \<Rightarrow> string \<Rightarrow> outcome) \<Rightarrow> string \<Rightarrow>
     resumeObject action" where
  "extractResumeDataIn jsonParse post resumeText w =
     (let caught =
            (let (u, w1) = logError ''Resume extraction failed:'' w;
                 (r, w2) = extractFallbackDataIn resumeText w1
             in (asObject r, w2))
      in case post (apiUrl w) (apiKey w) resumeText of
           Rejected \<Rightarrow> caught
         | Resolved data \<Rightarrow>
             (case parsedResume jsonParse data of Inl e \<Rightarrow> caught | Inr r \<Rightarrow> (r, w)))"

section \<open>The words of the specification\<close>

text \<open>
  A taxonomy entry appears in a text as a case-insensitive substring: the lower-cased
  text is some text, the lower-cased entry, some text.
\<close>

definition appearsIgnoringCase :: "string \<Rightarrow> string \<Rightarrow> bool" where
  "appearsIgnoringCase entry text \<longleftrightarrow>
     (\<exists>before after. toLowerCase text = before @ toLowerCase entry @ after)"

text \<open>
  A text matches a pattern: it is built piece by piece, one character of the class for a
  single piece, none or one for an optional piece, a run of at least \<open>n\<close> for a repeated
  piece. A pattern occurs in a text when some substring matches it, and a first match
  is one that starts no later than any other.
\<close>

fun matchesPattern :: "piece list \<Rightarrow> string \<Rightarrow> bool" where
  "matchesPattern [] m \<longleftrightarrow> m = []"
| "matchesPattern (One p # ps) m \<longleftrightarrow> (\<exists>c m'. m = c # m' \<and> p c \<and> matchesPattern ps m')"
| "matchesPattern (Opt p # ps) m \<longleftrightarrow>
     matchesPattern ps m \<or> (\<exists>c m'. m = c # m' \<and> p c \<and> matchesPattern ps m')"
| "matchesPattern (AtLeast n p # ps) m \<longleftrightarrow>
     (\<exists>run m'. m = run @ m' \<and> n \<le> length run \<and> (\<forall>c \<in> set run. p c) \<and> matchesPattern ps m')"

definition occursIn :: "piece list \<Rightarrow> string \<Rightarrow> bool" where
  "occursIn ps s \<longleftrightarrow> (\<exists>before m after. s = before @ m @ after \<and> matchesPattern ps m)"

definition firstMatchOf :: "piece list \<Rightarrow> string \<Rightarrow> string \<Rightarrow> bool" where
  "firstMatchOf ps s m \<longleftrightarrow>
     (\<exists>before after. s = before @ m @ after \<and> matchesPattern ps m \<and>
        (\<forall>before' m' after'. s = before' @ m' @ after' \<and> matchesPattern ps m' \<longrightarrow>
           length before \<le> length before'))"

text \<open>
  Pieces separated by a separator character: a text is its lines separated by line
  feeds, a line is its segments separated by the delimiter.
\<close>

fun separated :: "char \<Rightarrow> string list \<Rightarrow> string" where
  "separated sep [] = []"
| "separated sep [p] = p"
| "separated sep (p # q # ps) = p @ sep # separated sep (q # ps)"

text \<open>
  An experience line holds the delimiter and one of the period literals and is made of
  at least three delimited segments; its entry takes the first three segments, trimmed,
  and the fixed description.
\<close>

definition experienceLine :: "string \<Rightarrow> bool" where
  "experienceLine line \<longleftrightarrow>
     CHR ''|'' \<in> set line \<and>
     (\<exists>period \<in> set [''2019'', ''2020'', ''2021'', ''2022'', ''2023'', ''Present''].
        \<exists>before after. line = before @ period @ after) \<and>
     (\<exists>segments. 3 \<le> length segments \<and> (\<forall>s \<in> set segments. CHR ''|'' \<notin> set s) \<and>
        line = separated CHR ''|'' segments)"

definition entryOfLine :: "string \<Rightarrow> experienceEntry \<Rightarrow> bool" where
  "entryOfLine line entry \<longleftrightarrow>
     (\<exists>segments. 3 \<le> length segments \<and> (\<forall>s \<in> set segments. CHR ''|'' \<notin> set s) \<and>
        line = separated CHR ''|'' segments \<and>
        entry = \<lparr>title = trim (segments ! 0), company = trim (segments ! 1),
                  duration = trim (segments ! 2),
                  description = ''Developed and maintained software applications''\<rparr>)"

text \<open>The entry that the loop pushes for a line, as a function of the line.\<close>

definition experienceOf :: "string \<Rightarrow> experienceEntry" where
  "experienceOf line =
     (let segments = map trim (split CHR ''|'' line) in
      \<lparr>title = segments ! 0, company = segments ! 1, duration = segments ! 2,
       description = ''Developed and maintained software applications''\<rparr>)"

text \<open>
  Backfilling a decoded object: a field is the value decoded for its key, or
  \<^verbatim>\<open>undefined\<close> when the key is absent or the decoded value is no object; a scalar field
  keeps its value unless it is one of the falsy values and then takes the sentinel; a
  sequence field keeps its value when it is an array and is empty otherwise.
\<close>

definition falsy :: "jsval \<Rightarrow> bool" where
  "falsy v \<longleftrightarrow> v = JUndefined \<or> v = JNull \<or> v = JBool False \<or> v = JNumber 0 \<or> v = JString []"

definition decodedField :: "jsval \<Rightarrow> string \<Rightarrow> jsval" where
  "decodedField parsedData key =
     (case parsedData of
        JObject props \<Rightarrow> (case map_of props key of None \<Rightarrow> JUndefined | Some v \<Rightarrow> v)
      | _ \<Rightarrow> JUndefined)"

definition orSentinel :: "jsval \<Rightarrow> string \<Rightarrow> jsval" where
  "orSentinel v sentinel = (if falsy v then JString sentinel else v)"

definition decodedArray :: "jsval \<Rightarrow> string \<Rightarrow> jsval list" where
  "decodedArray parsedData key =
     (case decodedField parsedData key of JArray xs \<Rightarrow> xs | _ \<Rightarrow> [])"

text \<open>The record of the success path for a decoded value.\<close>

definition decodedRecord :: "jsval \<Rightarrow> resumeObject" where
  "decodedRecord parsedData =
     \<lparr>nameValue = orSentinel (decodedField parsedData ''name'') ''Unknown'',
      emailValue = orSentinel (decodedField parsedData ''email'') ''unknown@email.com'',
      phoneValue = orSentinel (decodedField parsedData ''phone'') ''Not provided'',
      linkedinValue = orSentinel (decodedField parsedData ''linkedin'') [],
      skillsValue = decodedArray parsedData ''skills'',
      experienceValue = decodedArray parsedData ''experience'',
      educationValue = decodedArray parsedData ''education'',
      certificationsValue = decodedArray parsedData ''certifications'',
      projectsValue = decodedArray parsedData ''projects''\<rparr>"

section \<open>Strings: facts and evaluation\<close>

lemma char_eq_char_of: "(c = char_of (n::nat)) = (take_bit 8 n = of_char c)"
  using char_of_eq_iff[of n c] by auto

lemmas lower_eval = toLowerCase_def toLowerChar_def isUpper_def char_of_eq_iff char_eq_char_of

lemma startsWith_iff: "startsWith s p \<longleftrightarrow> (\<exists>ss. s = p @ ss)"
  by (induction s p rule: startsWith.induct) auto

lemma includesStr_iff: "includesStr s sub \<longleftrightarrow> (\<exists>ps ss. s = ps @ sub @ ss)"
proof (induction s)
  case Nil
  then show ?case by auto
next
  case (Cons c cs)
  show ?case
  proof
    assume "includesStr (c # cs) sub"
    then consider "startsWith (c # cs) sub" | "includesStr cs sub"
      by (auto split: if_splits)
    then show "\<exists>ps ss. c # cs = ps @ sub @ ss"
    proof cases
      case 1
      then obtain ss where "c # cs = sub @ ss" by (auto simp: startsWith_iff)
      then have "c # cs = [] @ sub @ ss" by simp
      then show ?thesis by blast
    next
      case 2
      with Cons.IH obtain ps ss where "cs = ps @ sub @ ss" by blast
      then have "c # cs = (c # ps) @ sub @ ss" by simp
      then show ?thesis by blast
    qed
  next
    assume "\<exists>ps ss. c # cs = ps @ sub @ ss"
    then obtain ps ss where e: "c # cs = ps @ sub @ ss" by blast
    show "includesStr (c # cs) sub"
    proof (cases ps)
      case Nil
      with e have "startsWith (c # cs) sub" by (simp add: startsWith_iff)
      then show ?thesis by simp
    next
      case (Cons p ps')
      with e have "cs = ps' @ sub @ ss" by simp
      with Cons.IH have "includesStr cs sub" by blast
      then show ?thesis by simp
    qed
  qed
qed

lemma includesStr_char: "includesStr s [c] \<longleftrightarrow> c \<in> set s"
  by (induction s) auto

lemma includesStr_lower:
  assumes "includesStr s sub"
  shows "includesStr (toLowerCase s) (toLowerCase sub)"
proof -
  from assms obtain ps ss where "s = ps @ sub @ ss" by (auto simp: includesStr_iff)
  then have "toLowerCase s = toLowerCase ps @ toLowerCase sub @ toLowerCase ss"
    by (simp add: toLowerCase_def)
  then show ?thesis unfolding includesStr_iff by blast
qed

lemma includesStr_prefix:
  assumes "includesStr s (a @ b)"
  shows "includesStr s a"
proof -
  from assms obtain ps ss where "s = ps @ (a @ b) @ ss" by (auto simp: includesStr_iff)
  then have "s = ps @ a @ (b @ ss)" by simp
  then show ?thesis unfolding includesStr_iff by blast
qed

lemma appearsIgnoringCase_code:
  "appearsIgnoringCase entry text = includesStr (toLowerCase text) (toLowerCase entry)"
  by (simp add: appearsIgnoringCase_def includesStr_iff)

section \<open>Skill taxonomy matcher: properties\<close>

lemma foldl_push_filter:
  "foldl (\<lambda>acc x. if P x then acc @ [x] else acc) acc xs = acc @ filter P xs"
  by (induction xs arbitrary: acc) auto

lemma foundSkills_filter:
  "foundSkills text =
     filter (\<lambda>skill. includesStr (toLowerCase text) (toLowerCase skill)) technicalSkills"
  unfolding foundSkills_def
  using foldl_push_filter[of "\<lambda>skill. includesStr (toLowerCase text) (toLowerCase skill)" "[]"
      technicalSkills]
  by (simp add: pushSkill_def[abs_def])

text \<open>For evaluation: the lower-cased taxonomy, computed once.\<close>

lemma lowerSkills:
  "map toLowerCase technicalSkills =
    [''javascript'', ''python'', ''java'', ''c'', ''c++'', ''sql'', ''r'', ''matlab'',
     ''react'', ''node.js'', ''express.js'', ''mongodb'', ''html'', ''css'', ''typescript'',
     ''redux'', ''rest api'', ''graphql'', ''git'', ''github'', ''gitlab'', ''docker'',
     ''kubernetes'', ''aws'', ''azure'', ''google cloud'', ''firebase'', ''opencv'',
     ''tensorflow'', ''pytorch'', ''machine learning'', ''deep learning'',
     ''natural language processing'', ''computer vision'', ''data analysis'',
     ''data visualization'', ''pandas'', ''numpy'', ''scikit-learn'', ''tableau'',
     ''power bi'', ''agile'', ''scrum'', ''kanban'', ''ci/cd'', ''linux'',
     ''shell scripting'', ''cybersecurity'', ''networking'', ''cloud computing'',
     ''system design'', ''oop'', ''functional programming'', ''data structures'',
     ''algorithms'', ''database management'', ''software testing'', ''unit testing'',
     ''integration testing'', ''ui/ux'', ''figma'', ''wireframing'', ''api integration'',
     ''microservices'', ''devops'']"
  by (simp add: technicalSkills_def lower_eval)

lemma filter_through_map:
  "filter (\<lambda>x. P (f x)) xs = map fst (filter (\<lambda>(x, y). P y) (zip xs (map f xs)))"
  by (induction xs) auto

lemma foundSkills_zip:
  "foundSkills text =
     map fst (filter (\<lambda>(skill, lower). includesStr (toLowerCase text) lower)
                (zip technicalSkills (map toLowerCase technicalSkills)))"
  unfolding foundSkills_filter
  by (rule filter_through_map[of "includesStr (toLowerCase text)" toLowerCase technicalSkills])

lemmas skills_eval =
  extractSkillsFromText_def foundSkills_zip lowerSkills technicalSkills_def toLowerCase_def
  toLowerChar_def isUpper_def char_of_eq_iff char_eq_char_of

lemma skill_reported:
  assumes "skill \<in> set technicalSkills"
    and "includesStr (toLowerCase text) (toLowerCase skill)"
  shows "skill \<in> set (extractSkillsFromText text)"
proof -
  from assms have "skill \<in> set (foundSkills text)" by (simp add: foundSkills_filter)
  moreover from this have "length (foundSkills text) > 0" by (cases "foundSkills text") auto
  ultimately show ?thesis by (simp add: extractSkillsFromText_def)
qed

lemma extractSkills_nonempty: "extractSkillsFromText text \<noteq> []"
  by (auto simp: extractSkillsFromText_def)

text \<open>
  C6. For every text the skill matcher returns the taxonomy entries that appear in the
  text as a case-insensitive substring, in the order of the taxonomy, and the default
  triple JavaScript, React, Node.js when no entry appears.
\<close>

theorem skills_match_in_taxonomy_order:
  "extractSkillsFromText text =
     (let matches = filter (\<lambda>entry. appearsIgnoringCase entry text) technicalSkills
      in if matches = [] then [''JavaScript'', ''React'', ''Node.js''] else matches)"
proof -
  have "(\<lambda>entry. appearsIgnoringCase entry text) =
        (\<lambda>skill. includesStr (toLowerCase text) (toLowerCase skill))"
    by (simp add: appearsIgnoringCase_code)
  then show ?thesis
    by (simp add: extractSkillsFromText_def foundSkills_filter Let_def)
qed

text \<open>
  The text of the specification's example: Python comes before React as in the taxonomy,
  not as in the text, and the one-letter entries C and R are matched too.
\<close>

theorem skills_match_in_taxonomy_order_witness:
  "extractSkillsFromText ''I know react and PYTHON'' = [''Python'', ''C'', ''R'', ''React'']"
proof -
  have "extractSkillsFromText ''I know react and PYTHON'' =
     (let matches = filter (\<lambda>entry. appearsIgnoringCase entry ''I know react and PYTHON'')
                      technicalSkills
      in if matches = [] then [''JavaScript'', ''React'', ''Node.js''] else matches)"
    by (rule skills_match_in_taxonomy_order)
  also have "filter (\<lambda>entry. appearsIgnoringCase entry ''I know react and PYTHON'')
               technicalSkills = foundSkills ''I know react and PYTHON''"
    by (simp add: foundSkills_filter appearsIgnoringCase_code)
  also have "foundSkills ''I know react and PYTHON'' = [''Python'', ''C'', ''R'', ''React'']"
    by (simp add: skills_eval)
  finally show ?thesis by simp
qed

lemma letter_lower:
  "toLowerChar CHR ''c'' = CHR ''c''" "toLowerChar CHR ''C'' = CHR ''c''"
  "toLowerChar CHR ''r'' = CHR ''r''" "toLowerChar CHR ''R'' = CHR ''r''"
  by (simp_all add: lower_eval)

lemma letter_skill:
  assumes "c \<in> set text" and "toLowerChar c = l" and "toLowerCase skill = [l]"
    and "skill \<in> set technicalSkills"
  shows "skill \<in> set (extractSkillsFromText text)"
proof -
  from assms(1,2) have "l \<in> set (toLowerCase text)" by (auto simp: toLowerCase_def)
  then have "includesStr (toLowerCase text) (toLowerCase skill)"
    by (simp add: assms(3) includesStr_char)
  with assms(4) show ?thesis by (rule skill_reported)
qed

lemma C_reported:
  assumes "CHR ''c'' \<in> set text \<or> CHR ''C'' \<in> set text"
  shows "''C'' \<in> set (extractSkillsFromText text)"
proof -
  have l: "toLowerCase ''C'' = ''c''" by (simp add: lower_eval)
  have m: "''C'' \<in> set technicalSkills" by (simp add: technicalSkills_def)
  from assms show ?thesis
    using letter_skill[OF _ letter_lower(1) l m] letter_skill[OF _ letter_lower(2) l m] by blast
qed

lemma R_reported:
  assumes "CHR ''r'' \<in> set text \<or> CHR ''R'' \<in> set text"
  shows "''R'' \<in> set (extractSkillsFromText text)"
proof -
  have l: "toLowerCase ''R'' = ''r''" by (simp add: lower_eval)
  have m: "''R'' \<in> set technicalSkills" by (simp add: technicalSkills_def)
  from assms show ?thesis
    using letter_skill[OF _ letter_lower(3) l m] letter_skill[OF _ letter_lower(4) l m] by blast
qed

lemma Java_reported:
  assumes "includesStr text ''JavaScript''"
  shows "''Java'' \<in> set (extractSkillsFromText text)"
proof -
  from assms have "includesStr text (''Java'' @ ''Script'')" by simp
  then have "includesStr text ''Java''" by (rule includesStr_prefix)
  then have "includesStr (toLowerCase text) (toLowerCase ''Java'')" by (rule includesStr_lower)
  moreover have "''Java'' \<in> set technicalSkills" by (simp add: technicalSkills_def)
  ultimately show ?thesis by (rule skill_reported[rotated])
qed

text \<open>
  C10. Matching is plain substring containment: a text that contains JavaScript also
  yields Java, a text with the letter c or C anywhere yields the entry C, a text with r
  or R yields the entry R; so a result equal to the default triple comes only from a
  text with none of these four letters.
\<close>

theorem substring_entries_always_reported:
  "(includesStr text ''JavaScript'' \<longrightarrow> ''Java'' \<in> set (extractSkillsFromText text)) \<and>
   (CHR ''c'' \<in> set text \<or> CHR ''C'' \<in> set text \<longrightarrow>
      ''C'' \<in> set (extractSkillsFromText text)) \<and>
   (CHR ''r'' \<in> set text \<or> CHR ''R'' \<in> set text \<longrightarrow>
      ''R'' \<in> set (extractSkillsFromText text)) \<and>
   (extractSkillsFromText text = [''JavaScript'', ''React'', ''Node.js''] \<longrightarrow>
      CHR ''c'' \<notin> set text \<and> CHR ''C'' \<notin> set text \<and>
      CHR ''r'' \<notin> set text \<and> CHR ''R'' \<notin> set text)"
proof -
  have d: "CHR ''c'' \<notin> set text \<and> CHR ''C'' \<notin> set text \<and>
           CHR ''r'' \<notin> set text \<and> CHR ''R'' \<notin> set text"
    if e: "extractSkillsFromText text = [''JavaScript'', ''React'', ''Node.js'']"
  proof -
    have "''C'' \<notin> set (extractSkillsFromText text)" "''R'' \<notin> set (extractSkillsFromText text)"
      by (simp_all add: e)
    with C_reported[of "text"] R_reported[of "text"] show ?thesis by blast
  qed
  show ?thesis using Java_reported C_reported R_reported d by blast
qed

theorem substring_entries_always_reported_witness:
  "includesStr ''JavaScript'' ''JavaScript'' \<and>
   ''Java'' \<in> set (extractSkillsFromText ''JavaScript'') \<and>
   CHR ''c'' \<in> set ''JavaScript'' \<and> ''C'' \<in> set (extractSkillsFromText ''JavaScript'') \<and>
   CHR ''r'' \<in> set ''JavaScript'' \<and> ''R'' \<in> set (extractSkillsFromText ''JavaScript'') \<and>
   extractSkillsFromText ''Go'' = [''JavaScript'', ''React'', ''Node.js''] \<and>
   CHR ''c'' \<notin> set ''Go'' \<and> CHR ''C'' \<notin> set ''Go'' \<and>
   CHR ''r'' \<notin> set ''Go'' \<and> CHR ''R'' \<notin> set ''Go''"
proof -
  have a: "includesStr ''JavaScript'' ''JavaScript''" by simp
  have c: "CHR ''c'' \<in> set ''JavaScript''" and r: "CHR ''r'' \<in> set ''JavaScript''" by simp_all
  have g: "extractSkillsFromText ''Go'' = [''JavaScript'', ''React'', ''Node.js'']"
    by (simp add: skills_eval)
  from a c r g substring_entries_always_reported[of "''JavaScript''"]
    substring_entries_always_reported[of "''Go''"]
  show ?thesis by blast
qed

section \<open>Regular expressions: the engine against the patterns\<close>

lemma AtLeast_numeral:
  "matchHere (AtLeast (numeral k) p # ps) [] = None"
  "matchHere (AtLeast (numeral k) p # ps) (c # cs) =
     (if p c then map_option (\<lambda>(m, r). (c # m, r)) (matchHere (AtLeast (pred_numeral k) p # ps) cs)
      else None)"
  by (simp_all add: numeral_eq_Suc)

lemmas class_eval = isDigit_def isWord_def lit_def litIgnoreCase_def emailChar_def
  isNonZeroDigit_def phoneSeparator_def phoneChar_def handleChar_def isWhiteSpace_def

lemmas pattern_eval = matchFirst_def replaceFirst_def emailPattern_def phonePattern_def
  linkedinPattern_def projectPattern_def AtLeast_numeral

lemmas trim_eval = trim_def isWhiteSpace_def

lemma matchHere_sound:
  "matchHere ps s = Some (m, r) \<Longrightarrow> s = m @ r \<and> matchesPattern ps m"
proof (induction ps s arbitrary: m r rule: matchHere.induct)
  case (1 s)
  then show ?case by simp
next
  case (2 p ps)
  then show ?case by simp
next
  case (3 p ps c cs)
  then show ?case by (auto split: if_splits)
next
  case (4 p ps)
  from 4(2) have "matchHere ps [] = Some (m, r)" by simp
  from 4(1)[OF this] show ?case by auto
next
  case (5 p ps c cs)
  then show ?case by (auto split: if_splits option.splits)
next
  case (6 p ps)
  from 6(2) have "matchHere ps [] = Some (m, r)" by simp
  from 6(1)[OF this] have "matchesPattern ps m" and "[] = m @ r" by auto
  then have "m = [] @ m \<and> 0 \<le> length ([]::string) \<and> (\<forall>c \<in> set []. p c) \<and> matchesPattern ps m"
    by simp
  then have "matchesPattern (AtLeast 0 p # ps) m" unfolding matchesPattern.simps by blast
  with \<open>[] = m @ r\<close> show ?case by simp
next
  case (7 p ps c cs)
  show ?case
  proof (cases "p c")
    case True
    show ?thesis
    proof (cases "matchHere (AtLeast 0 p # ps) cs")
      case None
      with True 7 have "c # cs = m @ r \<and> matchesPattern ps m" by simp
      then have "c # cs = m @ r" and
        "m = [] @ m \<and> 0 \<le> length ([]::string) \<and> (\<forall>c \<in> set []. p c) \<and> matchesPattern ps m"
        by simp_all
      then show ?thesis unfolding matchesPattern.simps by blast
    next
      case (Some a)
      obtain m0 r0 where a: "a = (m0, r0)" by (cases a)
      with Some True 7 have mr: "m = c # m0" "r = r0" by simp_all
      from 7(1)[OF True] Some a have "cs = m0 @ r0 \<and> matchesPattern (AtLeast 0 p # ps) m0" by simp
      then obtain run m' where cs: "cs = m0 @ r0" and
        run: "m0 = run @ m'" "\<forall>c \<in> set run. p c" "matchesPattern ps m'"
        by auto
      from run True have
        "c # m0 = (c # run) @ m' \<and> 0 \<le> length (c # run) \<and> (\<forall>x \<in> set (c # run). p x) \<and>
         matchesPattern ps m'"
        by simp
      then have "matchesPattern (AtLeast 0 p # ps) (c # m0)" unfolding matchesPattern.simps by blast
      with cs mr show ?thesis by simp
    qed
  next
    case False
    with 7 have "c # cs = m @ r \<and> matchesPattern ps m" by simp
    then have "c # cs = m @ r" and
      "m = [] @ m \<and> 0 \<le> length ([]::string) \<and> (\<forall>c \<in> set []. p c) \<and> matchesPattern ps m"
      by simp_all
    then show ?thesis unfolding matchesPattern.simps by blast
  qed
next
  case (8 n p ps)
  then show ?case by simp
next
  case (9 n p ps c cs)
  from 9(2) have pc: "p c" by (simp split: if_splits)
  with 9(2) obtain m0 where sub: "matchHere (AtLeast n p # ps) cs = Some (m0, r)" and m: "m = c # m0"
    by auto
  from 9(1)[OF pc sub] obtain run m' where cs: "cs = m0 @ r" and
    run: "m0 = run @ m'" "n \<le> length run" "\<forall>c \<in> set run. p c" "matchesPattern ps m'"
    by auto
  from run pc have
    "c # m0 = (c # run) @ m' \<and> Suc n \<le> length (c # run) \<and> (\<forall>x \<in> set (c # run). p x) \<and>
     matchesPattern ps m'"
    by simp
  then have "matchesPattern (AtLeast (Suc n) p # ps) (c # m0)" unfolding matchesPattern.simps by blast
  with cs m show ?case by simp
qed

lemma matchHere_complete:
  "matchesPattern ps m \<Longrightarrow> s = m @ r \<Longrightarrow> matchHere ps s \<noteq> None"
proof (induction ps s arbitrary: m r rule: matchHere.induct)
  case (1 s)
  then show ?case by simp
next
  case (2 p ps)
  then show ?case by auto
next
  case (3 p ps c cs)
  from 3(2,3) obtain m' where "m = c # m'" "p c" "matchesPattern ps m'" "cs = m' @ r" by auto
  with 3(1) have "matchHere ps cs \<noteq> None" by blast
  with \<open>p c\<close> show ?case by auto
next
  case (4 p ps)
  then have "m = []" "r = []" by simp_all
  with 4(2) have "matchesPattern ps []" by simp
  with 4(1) show ?case by auto
next
  case (5 p ps c cs)
  from 5(4) consider (skip) "matchesPattern ps m"
    | (take) m' where "m = c # m'" "p c" "matchesPattern ps m'" "cs = m' @ r"
    using 5(5) by auto
  then show ?case
  proof cases
    case skip
    show ?thesis
    proof (cases "p c")
      case True
      show ?thesis
      proof (cases "matchHere ps cs")
        case None
        from 5(2)[OF True None skip 5(5)] True None show ?thesis by simp
      next
        case (Some a)
        with True show ?thesis by (cases a) simp
      qed
    next
      case False
      from 5(3)[OF False skip 5(5)] False show ?thesis by simp
    qed
  next
    case take
    from 5(1)[OF take(2) take(3) take(4)] obtain a where "matchHere ps cs = Some a" by auto
    with take(2) show ?thesis by (cases a) simp
  qed
next
  case (6 p ps)
  then have "m = []" by simp
  with 6(2) have "matchesPattern ps []" by auto
  with 6(1) show ?case by auto
next
  case (7 p ps c cs)
  from 7(4) obtain run m' where run: "m = run @ m'" "\<forall>c \<in> set run. p c" "matchesPattern ps m'"
    by auto
  show ?case
  proof (cases run)
    case Nil
    with run have skip: "matchesPattern ps m" by simp
    show ?thesis
    proof (cases "p c")
      case True
      show ?thesis
      proof (cases "matchHere (AtLeast 0 p # ps) cs")
        case None
        from 7(2)[OF True None skip 7(5)] True None show ?thesis by simp
      next
        case (Some a)
        with True show ?thesis by (cases a) simp
      qed
    next
      case False
      from 7(3)[OF False skip 7(5)] False show ?thesis by simp
    qed
  next
    case (Cons x run')
    with run 7(5) have x: "x = c" "p c" and cs: "cs = (run' @ m') @ r" by auto
    from run Cons have
      "run' @ m' = run' @ m' \<and> 0 \<le> length run' \<and> (\<forall>c \<in> set run'. p c) \<and> matchesPattern ps m'"
      by simp
    then have "matchesPattern (AtLeast 0 p # ps) (run' @ m')"
      unfolding matchesPattern.simps by blast
    from 7(1)[OF x(2) this cs] obtain a where "matchHere (AtLeast 0 p # ps) cs = Some a" by auto
    with x(2) show ?thesis by (cases a) simp
  qed
next
  case (8 n p ps)
  then show ?case by auto
next
  case (9 n p ps c cs)
  from 9(2) obtain run m' where run: "m = run @ m'" "Suc n \<le> length run" "\<forall>c \<in> set run. p c"
    "matchesPattern ps m'"
    by auto
  from run(2) obtain x run' where Cons: "run = x # run'" by (cases run) auto
  with run 9(3) have x: "x = c" "p c" and cs: "cs = (run' @ m') @ r" by auto
  from run Cons have
    "run' @ m' = run' @ m' \<and> n \<le> length run' \<and> (\<forall>c \<in> set run'. p c) \<and> matchesPattern ps m'"
    by simp
  then have "matchesPattern (AtLeast n p # ps) (run' @ m')"
    unfolding matchesPattern.simps by blast
  from 9(1)[OF x(2) this cs] obtain a where "matchHere (AtLeast n p # ps) cs = Some a" by auto
  with x(2) show ?case by simp
qed

lemma search_Some:
  "search ps s = Some (b, m, a) \<Longrightarrow> firstMatchOf ps s m"
proof (induction s arbitrary: b)
  case Nil
  then have "matchHere ps [] = Some (m, a)" and "b = []" by auto
  from matchHere_sound[OF this(1)] have "[] = [] @ m @ a" "matchesPattern ps m" by auto
  then show ?case unfolding firstMatchOf_def by (metis le0 list.size(3))
next
  case (Cons c cs)
  show ?case
  proof (cases "matchHere ps (c # cs)")
    case (Some x)
    with Cons.prems have "x = (m, a)" by (cases x) simp
    from matchHere_sound[OF Some[unfolded this]]
    have "c # cs = [] @ m @ a" "matchesPattern ps m" by auto
    then show ?thesis unfolding firstMatchOf_def by (metis le0 list.size(3))
  next
    case None
    with Cons.prems obtain b0 where sub: "search ps cs = Some (b0, m, a)" and b: "b = c # b0"
      by auto
    from Cons.IH[OF sub] obtain before after where
      cs: "cs = before @ m @ after" and mm: "matchesPattern ps m" and
      least: "\<And>before' m' after'. cs = before' @ m' @ after' \<Longrightarrow> matchesPattern ps m' \<Longrightarrow>
                length before \<le> length before'"
      unfolding firstMatchOf_def by blast
    have "length (c # before) \<le> length before'"
      if e: "c # cs = before' @ m' @ after'" and m': "matchesPattern ps m'" for before' m' after'
    proof (cases before')
      case Nil
      with e have "c # cs = m' @ after'" by simp
      from matchHere_complete[OF m' this] None show ?thesis by simp
    next
      case (Cons x before'')
      with e have "cs = before'' @ m' @ after'" by simp
      from least[OF this m'] Cons show ?thesis by simp
    qed
    moreover from cs have "c # cs = (c # before) @ m @ after" by simp
    ultimately show ?thesis unfolding firstMatchOf_def using mm by blast
  qed
qed

lemma search_None:
  "search ps s = None \<Longrightarrow> \<not> occursIn ps s"
proof (induction s)
  case Nil
  then have "matchHere ps [] = None" by (cases "matchHere ps []") auto
  with matchHere_complete[of ps _ "[]" "[]"] show ?case unfolding occursIn_def by auto
next
  case (Cons c cs)
  then have here: "matchHere ps (c # cs) = None" and sub: "search ps cs = None"
    by (auto split: option.splits)
  from Cons.IH[OF sub] have no: "\<not> occursIn ps cs" .
  show ?case unfolding occursIn_def
  proof
    assume "\<exists>before m after. c # cs = before @ m @ after \<and> matchesPattern ps m"
    then obtain before m after where e: "c # cs = before @ m @ after" and m: "matchesPattern ps m"
      by blast
    show False
    proof (cases before)
      case Nil
      with e have "c # cs = m @ after" by simp
      from matchHere_complete[OF m this] here show ?thesis by simp
    next
      case (Cons x before')
      with e have "cs = before' @ m @ after" by simp
      with m no show ?thesis unfolding occursIn_def by blast
    qed
  qed
qed

lemma matchFirst_Some: "matchFirst ps s = Some m \<Longrightarrow> firstMatchOf ps s m"
  unfolding matchFirst_def using search_Some by (cases "search ps s") auto

lemma matchFirst_None: "matchFirst ps s = None \<Longrightarrow> \<not> occursIn ps s"
  unfolding matchFirst_def using search_None by (cases "search ps s") auto

lemma firstMatchOf_occurs: "firstMatchOf ps s m \<Longrightarrow> occursIn ps s"
  unfolding firstMatchOf_def occursIn_def by blast

section \<open>Experience extractor: properties\<close>

lemma split_nonempty: "split sep s \<noteq> []"
  by (induction s) (auto split: list.splits)

lemma split_free: "p \<in> set (split sep s) \<Longrightarrow> sep \<notin> set p"
proof (induction s arbitrary: p)
  case Nil
  then show ?case by simp
next
  case (Cons c cs)
  show ?case
  proof (cases "c = sep")
    case True
    with Cons show ?thesis by auto
  next
    case False
    obtain q qs where s: "split sep cs = q # qs"
      using split_nonempty[of sep cs] by (cases "split sep cs") auto
    with False Cons.prems have "p = c # q \<or> p \<in> set qs" by simp
    with Cons.IH[of q] Cons.IH[of p] s False show ?thesis by auto
  qed
qed

lemma separated_split: "separated sep (split sep s) = s"
proof (induction s)
  case Nil
  show ?case by simp
next
  case (Cons c cs)
  obtain q qs where s: "split sep cs = q # qs"
    using split_nonempty[of sep cs] by (cases "split sep cs") auto
  show ?case
  proof (cases "c = sep")
    case True
    with Cons s show ?thesis by simp
  next
    case False
    with Cons s show ?thesis by (cases qs) auto
  qed
qed

lemma split_no_separator: "sep \<notin> set p \<Longrightarrow> split sep p = [p]"
  by (induction p) auto

lemma split_piece: "sep \<notin> set p \<Longrightarrow> split sep (p @ sep # rest) = p # split sep rest"
  by (induction p) auto

lemma split_separated:
  "ps \<noteq> [] \<Longrightarrow> \<forall>p \<in> set ps. sep \<notin> set p \<Longrightarrow> split sep (separated sep ps) = ps"
proof (induction sep ps rule: separated.induct)
  case (1 sep)
  then show ?case by simp
next
  case (2 sep p)
  then show ?case by (simp add: split_no_separator)
next
  case (3 sep p q ps)
  then show ?case by (simp add: split_piece)
qed

lemma segments_iff:
  "(\<exists>segments. 3 \<le> length segments \<and> (\<forall>s \<in> set segments. sep \<notin> set s) \<and>
      line = separated sep segments) \<longleftrightarrow> 3 \<le> length (split sep line)"
proof
  assume "\<exists>segments. 3 \<le> length segments \<and> (\<forall>s \<in> set segments. sep \<notin> set s) \<and>
      line = separated sep segments"
  then obtain segments where s: "3 \<le> length segments" "\<forall>s \<in> set segments. sep \<notin> set s"
    "line = separated sep segments" by blast
  from s(1) have "segments \<noteq> []" by auto
  with s(2,3) have "split sep line = segments" by (simp add: split_separated)
  with s(1) show "3 \<le> length (split sep line)" by simp
next
  assume "3 \<le> length (split sep line)"
  moreover have "\<forall>s \<in> set (split sep line). sep \<notin> set s" using split_free by blast
  moreover have "line = separated sep (split sep line)" by (simp add: separated_split)
  ultimately show "\<exists>segments. 3 \<le> length segments \<and> (\<forall>s \<in> set segments. sep \<notin> set s) \<and>
      line = separated sep segments" by blast
qed

lemma experienceLine_code:
  "experienceLine line \<longleftrightarrow>
     includesStr line ''|'' \<and> mentionsPeriod line \<and> length (map trim (split CHR ''|'' line)) \<ge> 3"
  unfolding experienceLine_def mentionsPeriod_def includesStr_char segments_iff
  by (simp add: includesStr_iff)

lemma entryOfLine_experienceOf:
  assumes "experienceLine line"
  shows "entryOfLine line (experienceOf line)"
proof -
  from assms have "3 \<le> length (split CHR ''|'' line)" by (simp add: experienceLine_code)
  moreover have "\<forall>s \<in> set (split CHR ''|'' line). CHR ''|'' \<notin> set s" using split_free by blast
  moreover have "line = separated CHR ''|'' (split CHR ''|'' line)" by (simp add: separated_split)
  moreover from calculation(1) have
    "experienceOf line =
       \<lparr>title = trim (split CHR ''|'' line ! 0), company = trim (split CHR ''|'' line ! 1),
        duration = trim (split CHR ''|'' line ! 2),
        description = ''Developed and maintained software applications''\<rparr>"
    by (auto simp: experienceOf_def Let_def numeral_3_eq_3 Suc_le_length_iff)
  ultimately show ?thesis unfolding entryOfLine_def by blast
qed

lemma entries_of_lines:
  "\<forall>l \<in> set ls. experienceLine l \<Longrightarrow> list_all2 entryOfLine ls (map experienceOf ls)"
  by (induction ls) (auto intro: entryOfLine_experienceOf)

lemma experienceLoop_filter:
  "experienceLoop lines found =
     found @ map experienceOf (filter experienceLine (map trim lines))"
proof (induction lines arbitrary: found)
  case Nil
  show ?case by simp
next
  case (Cons l rest)
  show ?case
  proof (cases "experienceLine (trim l)")
    case True
    then have "experienceLoop (l # rest) found = experienceLoop rest (found @ [experienceOf (trim l)])"
      by (simp add: experienceLine_code experienceOf_def Let_def)
    with Cons.IH True show ?thesis by simp
  next
    case False
    then have "experienceLoop (l # rest) found = experienceLoop rest found"
      by (auto simp: experienceLine_code Let_def)
    with Cons.IH False show ?thesis by simp
  qed
qed

text \<open>
  C7. Every text is its lines separated by line feeds, and for the lines of the text the
  experience extractor gives one entry for every trimmed line that holds the delimiter
  and a period literal and is made of at least three delimited segments: the entries
  come in the order of the lines, each with the segments 0, 1, 2 trimmed as title,
  company and duration and with the fixed description. Other lines are ignored, and when
  no line qualifies the result is the one placeholder entry.
\<close>

theorem experience_one_entry_per_qualifying_line:
  "(\<exists>ls. ls \<noteq> [] \<and> (\<forall>l \<in> set ls. CHR 0x0A \<notin> set l) \<and> text = separated CHR 0x0A ls) \<and>
   (\<forall>ls. ls \<noteq> [] \<and> (\<forall>l \<in> set ls. CHR 0x0A \<notin> set l) \<and> text = separated CHR 0x0A ls \<longrightarrow>
      (let qualifying = filter experienceLine (map trim ls) in
       if qualifying = []
       then extractExperienceFromText text =
              [\<lparr>title = ''Software Engineer'', company = ''Tech Company'',
                duration = ''2021 - Present'',
                description = ''Developed web applications using modern technologies''\<rparr>]
       else list_all2 entryOfLine qualifying (extractExperienceFromText text)))"
proof
  have "split CHR 0x0A text \<noteq> []" by (rule split_nonempty)
  moreover have "\<forall>l \<in> set (split CHR 0x0A text). CHR 0x0A \<notin> set l" using split_free by blast
  moreover have "text = separated CHR 0x0A (split CHR 0x0A text)" by (simp add: separated_split)
  ultimately show "\<exists>ls. ls \<noteq> [] \<and> (\<forall>l \<in> set ls. CHR 0x0A \<notin> set l) \<and> text = separated CHR 0x0A ls"
    by blast
next
  show "\<forall>ls. ls \<noteq> [] \<and> (\<forall>l \<in> set ls. CHR 0x0A \<notin> set l) \<and> text = separated CHR 0x0A ls \<longrightarrow>
      (let qualifying = filter experienceLine (map trim ls) in
       if qualifying = []
       then extractExperienceFromText text =
              [\<lparr>title = ''Software Engineer'', company = ''Tech Company'',
                duration = ''2021 - Present'',
                description = ''Developed web applications using modern technologies''\<rparr>]
       else list_all2 entryOfLine qualifying (extractExperienceFromText text))"
  proof (intro allI impI)
    fix ls
    assume a: "ls \<noteq> [] \<and> (\<forall>l \<in> set ls. CHR 0x0A \<notin> set l) \<and> text = separated CHR 0x0A ls"
    then have l: "splitLines text = ls" by (simp add: splitLines_def split_separated)
    let ?q = "filter experienceLine (map trim ls)"
    have e: "extractExperienceFromText text =
               (if map experienceOf ?q = [] then [placeholderExperience] else map experienceOf ?q)"
      by (simp add: extractExperienceFromText_def experienceLoop_filter l Let_def)
    have "list_all2 entryOfLine ?q (map experienceOf ?q)" by (rule entries_of_lines) simp
    with e show "let qualifying = ?q in
       if qualifying = []
       then extractExperienceFromText text =
              [\<lparr>title = ''Software Engineer'', company = ''Tech Company'',
                duration = ''2021 - Present'',
                description = ''Developed web applications using modern technologies''\<rparr>]
       else list_all2 entryOfLine qualifying (extractExperienceFromText text)"
      by (simp add: Let_def placeholderExperience_def)
  qed
qed


text \<open>
  Three lines, the second with two segments only: two entries, in the order of the
  lines. Then a text whose only line has two segments, and the line of the
  specification's example.
\<close>

theorem experience_one_entry_per_qualifying_line_witness:
  "[''Dev | Acme | 2020'', ''  note | 2021'', '' QA | Beta | Present ''] \<noteq> [] \<and>
   CHR 0x0A \<notin> set ''Dev | Acme | 2020'' \<and> CHR 0x0A \<notin> set ''  note | 2021'' \<and>
   CHR 0x0A \<notin> set '' QA | Beta | Present '' \<and>
   ''Dev | Acme | 2020'' @ [CHR 0x0A] @ ''  note | 2021'' @ [CHR 0x0A] @ '' QA | Beta | Present '' =
     separated CHR 0x0A [''Dev | Acme | 2020'', ''  note | 2021'', '' QA | Beta | Present ''] \<and>
   filter experienceLine
     (map trim [''Dev | Acme | 2020'', ''  note | 2021'', '' QA | Beta | Present '']) =
     [''Dev | Acme | 2020'', ''QA | Beta | Present''] \<and>
   list_all2 entryOfLine [''Dev | Acme | 2020'', ''QA | Beta | Present'']
     (extractExperienceFromText
        (''Dev | Acme | 2020'' @ [CHR 0x0A] @ ''  note | 2021'' @ [CHR 0x0A] @
         '' QA | Beta | Present '')) \<and>
   extractExperienceFromText
     (''Dev | Acme | 2020'' @ [CHR 0x0A] @ ''  note | 2021'' @ [CHR 0x0A] @
      '' QA | Beta | Present '') =
     [\<lparr>title = ''Dev'', company = ''Acme'', duration = ''2020'',
       description = ''Developed and maintained software applications''\<rparr>,
      \<lparr>title = ''QA'', company = ''Beta'', duration = ''Present'',
       description = ''Developed and maintained software applications''\<rparr>] \<and>
   filter experienceLine (map trim [''Engineer | 2022'']) = [] \<and>
   extractExperienceFromText ''Engineer | 2022'' =
     [\<lparr>title = ''Software Engineer'', company = ''Tech Company'',
       duration = ''2021 - Present'',
       description = ''Developed web applications using modern technologies''\<rparr>] \<and>
   extractExperienceFromText ''Senior Engineer | Acme Corp | 2022 - Present'' =
     [\<lparr>title = ''Senior Engineer'', company = ''Acme Corp'', duration = ''2022 - Present'',
       description = ''Developed and maintained software applications''\<rparr>]"
proof -
  let ?ls = "[''Dev | Acme | 2020'', ''  note | 2021'', '' QA | Beta | Present '']"
  let ?t = "''Dev | Acme | 2020'' @ [CHR 0x0A] @ ''  note | 2021'' @ [CHR 0x0A] @
            '' QA | Beta | Present ''"
  have h: "?ls \<noteq> [] \<and> (\<forall>l \<in> set ?ls. CHR 0x0A \<notin> set l) \<and> ?t = separated CHR 0x0A ?ls"
    by simp
  have q: "filter experienceLine (map trim ?ls) = [''Dev | Acme | 2020'', ''QA | Beta | Present'']"
    by (simp add: experienceLine_code mentionsPeriod_def trim_eval)
  from experience_one_entry_per_qualifying_line[of ?t] h
  have "let qualifying = filter experienceLine (map trim ?ls) in
       if qualifying = []
       then extractExperienceFromText ?t =
              [\<lparr>title = ''Software Engineer'', company = ''Tech Company'',
                duration = ''2021 - Present'',
                description = ''Developed web applications using modern technologies''\<rparr>]
       else list_all2 entryOfLine qualifying (extractExperienceFromText ?t)"
    by blast
  then have a: "list_all2 entryOfLine [''Dev | Acme | 2020'', ''QA | Beta | Present'']
                  (extractExperienceFromText ?t)"
    unfolding q Let_def by simp
  have v: "extractExperienceFromText ?t =
     [\<lparr>title = ''Dev'', company = ''Acme'', duration = ''2020'',
       description = ''Developed and maintained software applications''\<rparr>,
      \<lparr>title = ''QA'', company = ''Beta'', duration = ''Present'',
       description = ''Developed and maintained software applications''\<rparr>]"
    by (simp add: extractExperienceFromText_def splitLines_def mentionsPeriod_def trim_eval)
  have h1: "[''Engineer | 2022''] \<noteq> [] \<and> (\<forall>l \<in> set [''Engineer | 2022'']. CHR 0x0A \<notin> set l) \<and>
            ''Engineer | 2022'' = separated CHR 0x0A [''Engineer | 2022'']"
    by simp
  have q1: "filter experienceLine (map trim [''Engineer | 2022'']) = []"
    by (simp add: experienceLine_code mentionsPeriod_def trim_eval)
  from experience_one_entry_per_qualifying_line[of "''Engineer | 2022''"] h1
  have "let qualifying = filter experienceLine (map trim [''Engineer | 2022'']) in
       if qualifying = []
       then extractExperienceFromText ''Engineer | 2022'' =
              [\<lparr>title = ''Software Engineer'', company = ''Tech Company'',
                duration = ''2021 - Present'',
                description = ''Developed web applications using modern technologies''\<rparr>]
       else list_all2 entryOfLine qualifying (extractExperienceFromText ''Engineer | 2022'')"
    by blast
  then have b: "extractExperienceFromText ''Engineer | 2022'' =
              [\<lparr>title = ''Software Engineer'', company = ''Tech Company'',
                duration = ''2021 - Present'',
                description = ''Developed web applications using modern technologies''\<rparr>]"
    unfolding q1 Let_def by simp
  have c: "extractExperienceFromText ''Senior Engineer | Acme Corp | 2022 - Present'' =
     [\<lparr>title = ''Senior Engineer'', company = ''Acme Corp'', duration = ''2022 - Present'',
       description = ''Developed and maintained software applications''\<rparr>]"
    by (simp add: extractExperienceFromText_def splitLines_def mentionsPeriod_def trim_eval)
  have h': "?ls \<noteq> []" "CHR 0x0A \<notin> set ''Dev | Acme | 2020''" "CHR 0x0A \<notin> set ''  note | 2021''"
    "CHR 0x0A \<notin> set '' QA | Beta | Present ''" "?t = separated CHR 0x0A ?ls"
    by simp_all
  from h' q a v q1 b c show ?thesis by blast
qed

section \<open>Fallback extraction pipeline: properties\<close>

lemma skills_of_empty: "extractSkillsFromText [] = [''JavaScript'', ''React'', ''Node.js'']"
  by (simp add: skills_eval)

lemma fallback_on_empty:
  "extractFallbackData [] =
     \<lparr>name = ''Unknown'', email = ''unknown@email.com'', phone = ''Not provided'',
      linkedin = [], skills = [''JavaScript'', ''React'', ''Node.js''],
      experience =
        [\<lparr>title = ''Software Engineer'', company = ''Tech Company'',
          duration = ''2021 - Present'',
          description = ''Developed web applications using modern technologies''\<rparr>],
      education =
        [\<lparr>degree = ''Bachelor of Science'', school = ''University'', year = ''2020'',
          cgpa = ''3.5'', stream = ''Computer Science''\<rparr>],
      certifications = [],
      projects =
        [\<lparr>projectName = ''Web Application'',
          projectDescription = ''Built a full-stack web application'',
          technologies = [''React'', ''Node.js'', ''MongoDB'']\<rparr>]\<rparr>"
proof -
  have exp: "extractExperienceFromText [] = [placeholderExperience]"
    by (simp add: extractExperienceFromText_def splitLines_def trim_def mentionsPeriod_def)
  have edu: "extractEducationFromText [] = [placeholderEducation]"
    by (simp add: extractEducationFromText_def splitLines_def trim_def toLowerCase_def)
  have cert: "extractCertificationsFromText [] = []"
    by (simp add: extractCertificationsFromText_def uniqueInOrder_def certKeywords_def
        pushCertification_def toLowerCase_def)
  have proj: "extractProjectsFromText [] = [placeholderProject]"
    by (simp add: extractProjectsFromText_def splitLines_def trim_def toLowerCase_def)
  have re: "matchFirst emailPattern [] = None" "matchFirst phonePattern [] = None"
    "matchFirst linkedinPattern [] = None"
    by (simp_all add: pattern_eval)
  show ?thesis
    by (simp add: extractFallbackData_def splitLines_def trim_def re skills_of_empty exp edu
        cert proj placeholderExperience_def placeholderEducation_def placeholderProject_def)
qed

text \<open>
  C5. The fallback pipeline on the empty text gives the sentinels Unknown,
  unknown@email.com, Not provided and the empty LinkedIn address, the default skills,
  one placeholder experience, education and project entry, and no certification.
\<close>

theorem fallback_of_empty_text:
  "extractFallbackData [] =
     \<lparr>name = ''Unknown'', email = ''unknown@email.com'', phone = ''Not provided'',
      linkedin = [], skills = [''JavaScript'', ''React'', ''Node.js''],
      experience =
        [\<lparr>title = ''Software Engineer'', company = ''Tech Company'',
          duration = ''2021 - Present'',
          description = ''Developed web applications using modern technologies''\<rparr>],
      education =
        [\<lparr>degree = ''Bachelor of Science'', school = ''University'', year = ''2020'',
          cgpa = ''3.5'', stream = ''Computer Science''\<rparr>],
      certifications = [],
      projects =
        [\<lparr>projectName = ''Web Application'',
          projectDescription = ''Built a full-stack web application'',
          technologies = [''React'', ''Node.js'', ''MongoDB'']\<rparr>]\<rparr>"
  by (rule fallback_on_empty)

section \<open>Contact extractor: properties\<close>

lemma phone_field:
  "phone (extractFallbackData text) =
     (case matchFirst phonePattern text of Some m \<Rightarrow> m | None \<Rightarrow> ''Not provided'')"
  by (simp add: extractFallbackData_def Let_def)

lemma email_field:
  "email (extractFallbackData text) =
     (case matchFirst emailPattern text of Some m \<Rightarrow> m | None \<Rightarrow> ''unknown@email.com'')"
  by (simp add: extractFallbackData_def Let_def)

lemma name_field:
  "name (extractFallbackData text) =
     (case filter (\<lambda>line. length line > 0) (map trim (splitLines text)) of
        [] \<Rightarrow> ''Unknown'' | first # _ \<Rightarrow> orElse first ''Unknown'')"
  by (simp add: extractFallbackData_def Let_def)

lemma length_filter_all: "\<forall>c \<in> set run. P c \<Longrightarrow> length (filter P run) = length run"
  by (induction run) auto

lemma opt_keeps_count:
  assumes "matchesPattern (Opt q # ps) m"
    and "\<And>m'. matchesPattern ps m' \<Longrightarrow> n \<le> length (filter P m')"
  shows "n \<le> length (filter P m)"
proof -
  from assms(1) consider "matchesPattern ps m" | c m' where "m = c # m'" "matchesPattern ps m'"
    by auto
  then show ?thesis
  proof cases
    case 1
    then show ?thesis by (rule assms(2))
  next
    case 2
    from assms(2)[OF 2(2)] 2(1) show ?thesis by (simp add: le_Suc_eq)
  qed
qed

lemma phone_match_length:
  assumes "matchesPattern phonePattern m"
  shows "10 \<le> length (filter phoneChar m)"
proof -
  have run: "10 \<le> length (filter phoneChar x)" if "matchesPattern [AtLeast 10 phoneChar] x" for x
  proof -
    from that have "\<exists>run. x = run \<and> 10 \<le> length run \<and> (\<forall>c \<in> set run. phoneChar c)"
      by simp
    then show ?thesis by (simp add: length_filter_all)
  qed
  have sep: "10 \<le> length (filter phoneChar x)"
    if "matchesPattern [Opt phoneSeparator, AtLeast 10 phoneChar] x" for x
    using that run by (rule opt_keeps_count)
  have digit: "10 \<le> length (filter phoneChar x)"
    if "matchesPattern [Opt isNonZeroDigit, Opt phoneSeparator, AtLeast 10 phoneChar] x" for x
    using that sep by (rule opt_keeps_count)
  from assms have "matchesPattern (Opt (lit CHR ''+'') #
      [Opt isNonZeroDigit, Opt phoneSeparator, AtLeast 10 phoneChar]) m"
    by (simp only: phonePattern_def)
  then show ?thesis using digit by (rule opt_keeps_count)
qed

lemma email_match_nonempty:
  assumes "matchesPattern emailPattern m"
  shows "m \<noteq> []"
proof -
  from assms have "\<exists>run m'. m = run @ m' \<and> 1 \<le> length run"
    unfolding emailPattern_def matchesPattern.simps(4) by blast
  then show ?thesis by auto
qed

lemma firstMatchOf_matches: "firstMatchOf ps s m \<Longrightarrow> matchesPattern ps m"
  unfolding firstMatchOf_def by blast

text \<open>
  C8, as the code has it. The phone field is the sentinel Not provided when the loose
  pattern occurs nowhere in the text, and otherwise a first match of the pattern; a match
  holds at least ten characters of the class of digits, white space, hyphens and
  parentheses, which need not be digits.
\<close>

theorem phone_first_loose_match:
  "(let p = phone (extractFallbackData text) in
     (\<not> occursIn phonePattern text \<longrightarrow> p = ''Not provided'') \<and>
     (occursIn phonePattern text \<longrightarrow>
        firstMatchOf phonePattern text p \<and> 10 \<le> length (filter phoneChar p)))"
proof (cases "matchFirst phonePattern text")
  case None
  then have "\<not> occursIn phonePattern text" by (rule matchFirst_None)
  with None show ?thesis by (simp add: phone_field)
next
  case (Some m)
  then have f: "firstMatchOf phonePattern text m" by (rule matchFirst_Some)
  then have "occursIn phonePattern text" and "10 \<le> length (filter phoneChar m)"
    by (auto intro: firstMatchOf_occurs phone_match_length firstMatchOf_matches)
  with f Some show ?thesis by (simp add: phone_field)
qed

text \<open>A rule of ten hyphens is taken for a phone number: it has no digit at all.\<close>

lemma phone_of_dashes: "phone (extractFallbackData ''----------'') = ''----------''"
  by (simp add: phone_field pattern_eval class_eval)

theorem phone_without_digits_counterexample:
  "phone (extractFallbackData ''----------'') = ''----------'' \<and>
   filter isDigit (phone (extractFallbackData ''----------'')) = []"
  by (simp add: phone_of_dashes isDigit_def)

theorem phone_first_loose_match_witness:
  "\<not> occursIn phonePattern ''no phone'' \<and>
   phone (extractFallbackData ''no phone'') = ''Not provided'' \<and>
   occursIn phonePattern ''+1 (555) 111-2222'' \<and>
   phone (extractFallbackData ''+1 (555) 111-2222'') = ''+1 (555) 111-2222'' \<and>
   firstMatchOf phonePattern ''+1 (555) 111-2222'' (phone (extractFallbackData ''+1 (555) 111-2222'')) \<and>
   10 \<le> length (filter phoneChar (phone (extractFallbackData ''+1 (555) 111-2222'')))"
proof -
  have n: "matchFirst phonePattern ''no phone'' = None"
    by (simp add: pattern_eval class_eval)
  have y: "matchFirst phonePattern ''+1 (555) 111-2222'' = Some ''+1 (555) 111-2222''"
    by (simp add: pattern_eval class_eval)
  from n have a: "\<not> occursIn phonePattern ''no phone''" by (rule matchFirst_None)
  from y have b: "occursIn phonePattern ''+1 (555) 111-2222''"
    by (intro firstMatchOf_occurs matchFirst_Some)
  have v: "phone (extractFallbackData ''+1 (555) 111-2222'') = ''+1 (555) 111-2222''"
    by (simp add: phone_field y)
  note t1 = phone_first_loose_match[of "''no phone''", unfolded Let_def]
  note t2 = phone_first_loose_match[of "''+1 (555) 111-2222''", unfolded Let_def]
  from a t1 have c1: "phone (extractFallbackData ''no phone'') = ''Not provided''" by blast
  from b t2 have c2:
    "firstMatchOf phonePattern ''+1 (555) 111-2222'' (phone (extractFallbackData ''+1 (555) 111-2222''))"
    "10 \<le> length (filter phoneChar (phone (extractFallbackData ''+1 (555) 111-2222'')))"
    by blast+
  from a b v c1 c2 show ?thesis by blast
qed

lemma fallback_fields_populated:
  "name (extractFallbackData text) \<noteq> [] \<and> email (extractFallbackData text) \<noteq> [] \<and>
   phone (extractFallbackData text) \<noteq> [] \<and> skills (extractFallbackData text) \<noteq> [] \<and>
   experience (extractFallbackData text) \<noteq> [] \<and> education (extractFallbackData text) \<noteq> [] \<and>
   projects (extractFallbackData text) \<noteq> []"
proof -
  have n: "name (extractFallbackData text) \<noteq> []"
    by (simp add: name_field orElse_def split: list.splits)
  have e: "email (extractFallbackData text) \<noteq> []"
  proof (cases "matchFirst emailPattern text")
    case None
    then show ?thesis by (simp add: email_field)
  next
    case (Some m)
    then have "m \<noteq> []"
      by (intro email_match_nonempty firstMatchOf_matches matchFirst_Some)
    with Some show ?thesis by (simp add: email_field)
  qed
  have p: "phone (extractFallbackData text) \<noteq> []"
  proof (cases "matchFirst phonePattern text")
    case None
    then show ?thesis by (simp add: phone_field)
  next
    case (Some m)
    then have "10 \<le> length (filter phoneChar m)"
      by (intro phone_match_length firstMatchOf_matches matchFirst_Some)
    then have "m \<noteq> []" by auto
    with Some show ?thesis by (simp add: phone_field)
  qed
  have s: "skills (extractFallbackData text) \<noteq> []"
    by (simp add: extractFallbackData_def Let_def extractSkills_nonempty)
  have x: "experience (extractFallbackData text) \<noteq> []"
    by (auto simp: extractFallbackData_def Let_def extractExperienceFromText_def)
  have d: "education (extractFallbackData text) \<noteq> []"
    by (auto simp: extractFallbackData_def Let_def extractEducationFromText_def)
  have j: "projects (extractFallbackData text) \<noteq> []"
    by (auto simp: extractFallbackData_def Let_def extractProjectsFromText_def)
  from n e p s x d j show ?thesis by simp
qed

section \<open>LLM response protocol layer: properties\<close>

lemma getProp_optProp:
  "getProp v key = (if v = JUndefined \<or> v = JNull then Inl TypeError else Inr (optProp v key))"
  by (cases v) simp_all

lemma truthy_orDefault: "truthy d \<Longrightarrow> truthy (orDefault v d)"
  by (simp add: orDefault_def)

lemma orDefault_empty: "truthy (orDefault v (JString [])) \<or> orDefault v (JString []) = JString []"
  by (simp add: orDefault_def)

lemma messageContent_completionOf: "messageContent (completionOf content) = Inr content"
  by (simp add: messageContent_def completionOf_def)

lemma parsedResume_Inr:
  assumes "parsedResume jsonParse data = Inr r"
  obtains content cleaned parsedData where
    "messageContent data = Inr content" "cleanJsonResponse content = Inr cleaned"
    "jsonParse cleaned = Some parsedData" "parsedData \<noteq> JUndefined" "parsedData \<noteq> JNull"
    "r = \<lparr>nameValue = orDefault (optProp parsedData ''name'') (JString ''Unknown''),
          emailValue = orDefault (optProp parsedData ''email'') (JString ''unknown@email.com''),
          phoneValue = orDefault (optProp parsedData ''phone'') (JString ''Not provided''),
          linkedinValue = orDefault (optProp parsedData ''linkedin'') (JString []),
          skillsValue = arrayOrEmpty (optProp parsedData ''skills''),
          experienceValue = arrayOrEmpty (optProp parsedData ''experience''),
          educationValue = arrayOrEmpty (optProp parsedData ''education''),
          certificationsValue = arrayOrEmpty (optProp parsedData ''certifications''),
          projectsValue = arrayOrEmpty (optProp parsedData ''projects'')\<rparr>"
  using assms unfolding parsedResume_def getProp_optProp
  by (auto split: sum.splits option.splits if_splits)

lemma parsedResume_fields:
  assumes "parsedResume jsonParse data = Inr r"
  shows "truthy (nameValue r) \<and> truthy (emailValue r) \<and> truthy (phoneValue r) \<and>
         (truthy (linkedinValue r) \<or> linkedinValue r = JString [])"
proof -
  from assms obtain parsedData where
    "r = \<lparr>nameValue = orDefault (optProp parsedData ''name'') (JString ''Unknown''),
          emailValue = orDefault (optProp parsedData ''email'') (JString ''unknown@email.com''),
          phoneValue = orDefault (optProp parsedData ''phone'') (JString ''Not provided''),
          linkedinValue = orDefault (optProp parsedData ''linkedin'') (JString []),
          skillsValue = arrayOrEmpty (optProp parsedData ''skills''),
          experienceValue = arrayOrEmpty (optProp parsedData ''experience''),
          educationValue = arrayOrEmpty (optProp parsedData ''education''),
          certificationsValue = arrayOrEmpty (optProp parsedData ''certifications''),
          projectsValue = arrayOrEmpty (optProp parsedData ''projects'')\<rparr>"
    by (rule parsedResume_Inr)
  then show ?thesis using orDefault_empty[of "optProp parsedData ''linkedin''"]
    by (simp add: truthy_orDefault)
qed

lemma extractResumeData_cases:
  "extractResumeData jsonParse response text = asObject (extractFallbackData text) \<or>
   (\<exists>data. response = Resolved data \<and>
      parsedResume jsonParse data = Inr (extractResumeData jsonParse response text))"
  by (auto simp: extractResumeData_def split: outcome.splits sum.splits)

lemma truthy_falsy: "truthy v \<longleftrightarrow> \<not> falsy v"
  by (cases v) (auto simp: falsy_def)

lemma optProp_decodedField: "optProp v key = decodedField v key"
  by (cases v) (simp_all add: decodedField_def)

lemma orDefault_orSentinel: "orDefault v (JString s) = orSentinel v s"
  by (simp add: orDefault_def orSentinel_def truthy_falsy)

lemma arrayOrEmpty_decodedArray: "arrayOrEmpty (optProp v key) = decodedArray v key"
  unfolding decodedArray_def optProp_decodedField
  by (cases "decodedField v key") simp_all

subsection \<open>Sanitizing the content\<close>

lemma indexOf_first: "x \<notin> set pre \<Longrightarrow> indexOf (pre @ x # rest) x = Some (length pre)"
  by (induction pre) auto

lemma lastIndexOf_last:
  assumes "x \<notin> set post"
  shows "lastIndexOf (pre @ x # post) x = Some (length pre)"
proof -
  have "rev (pre @ x # post) = rev post @ x # rev pre" by simp
  moreover from assms have "x \<notin> set (rev post)" by simp
  ultimately have "indexOf (rev (pre @ x # post)) x = Some (length (rev post))"
    using indexOf_first by metis
  then show ?thesis by (simp add: lastIndexOf_def)
qed

lemma cleanJsonResponse_slice:
  assumes "CHR ''{'' \<notin> set before" and "CHR ''}'' \<notin> set after"
  shows "cleanJsonResponse (JString (before @ ''{'' @ inner @ ''}'' @ after)) =
           Inr (JString (''{'' @ inner @ ''}''))"
proof -
  let ?s = "before @ ''{'' @ inner @ ''}'' @ after"
  have s1: "?s = before @ CHR ''{'' # (inner @ ''}'' @ after)" by simp
  have s2: "?s = (before @ ''{'' @ inner) @ CHR ''}'' # after" by simp
  from assms(1) have i: "indexOf ?s CHR ''{'' = Some (length before)"
    unfolding s1 by (rule indexOf_first)
  from assms(2) have j: "lastIndexOf ?s CHR ''}'' = Some (length (before @ ''{'' @ inner))"
    unfolding s2 by (rule lastIndexOf_last)
  have "substring ?s (length before) (length (before @ ''{'' @ inner) + 1) = ''{'' @ inner @ ''}''"
    by (simp add: substring_def max_def min_def)
  with i j show ?thesis by simp
qed

subsection \<open>Backfilling the decoded object\<close>

lemma parsedResume_object:
  assumes "messageContent data = Inr content"
    and "cleanJsonResponse content = Inr cleaned"
    and "jsonParse cleaned = Some (JObject props)"
  shows "parsedResume jsonParse data =
     Inr \<lparr>nameValue = orDefault (optProp (JObject props) ''name'') (JString ''Unknown''),
          emailValue = orDefault (optProp (JObject props) ''email'') (JString ''unknown@email.com''),
          phoneValue = orDefault (optProp (JObject props) ''phone'') (JString ''Not provided''),
          linkedinValue = orDefault (optProp (JObject props) ''linkedin'') (JString []),
          skillsValue = arrayOrEmpty (optProp (JObject props) ''skills''),
          experienceValue = arrayOrEmpty (optProp (JObject props) ''experience''),
          educationValue = arrayOrEmpty (optProp (JObject props) ''education''),
          certificationsValue = arrayOrEmpty (optProp (JObject props) ''certifications''),
          projectsValue = arrayOrEmpty (optProp (JObject props) ''projects'')\<rparr>"
  using assms by (simp add: parsedResume_def)

lemma arrayOrEmpty_decodedField: "arrayOrEmpty (decodedField v key) = decodedArray v key"
  unfolding decodedArray_def by (cases "decodedField v key") simp_all

lemma parsedResume_decoded:
  assumes "messageContent data = Inr content"
    and "cleanJsonResponse content = Inr cleaned"
    and "jsonParse cleaned = Some parsedData"
    and "parsedData \<noteq> JUndefined" and "parsedData \<noteq> JNull"
  shows "parsedResume jsonParse data = Inr (decodedRecord parsedData)"
  using assms
  by (simp add: parsedResume_def getProp_optProp decodedRecord_def orDefault_orSentinel
      arrayOrEmpty_decodedField optProp_decodedField)

lemma parsedResume_Inr_decoded:
  assumes "parsedResume jsonParse data = Inr r"
  obtains content cleaned parsedData where
    "messageContent data = Inr content" "cleanJsonResponse content = Inr cleaned"
    "jsonParse cleaned = Some parsedData" "r = decodedRecord parsedData"
proof -
  from assms obtain content cleaned parsedData where
    a: "messageContent data = Inr content" "cleanJsonResponse content = Inr cleaned"
       "jsonParse cleaned = Some parsedData" "parsedData \<noteq> JUndefined" "parsedData \<noteq> JNull"
    by (rule parsedResume_Inr)
  from parsedResume_decoded[where jsonParse = jsonParse, OF a] assms have "r = decodedRecord parsedData" by simp
  with a that show ?thesis by blast
qed

text \<open>
  C1, as the code has it. The fallback path returns a non-empty name, email and phone
  and a non-empty sequence of skills, of experience, of education and of projects. The
  record that \<^verbatim>\<open>extractResumeData\<close> returns is either that fallback record or the
  record of a decoded value, and it is the record of the decoded value whenever the
  request resolved and the sanitized content decoded to a value other than \<^verbatim>\<open>null\<close>: its
  name, email, phone and LinkedIn address are the decoded values, the sentinel standing
  in for an absent or falsy one, and its skills, experience, education, certifications
  and projects are the decoded arrays, the empty sequence standing in for an absent
  value or one that is no array. On either path the name, the email and the phone are
  truthy and the LinkedIn address is truthy or the empty string.
\<close>

theorem every_field_present:
  "(let r = extractFallbackData text in
      name r \<noteq> [] \<and> email r \<noteq> [] \<and> phone r \<noteq> [] \<and> skills r \<noteq> [] \<and>
      experience r \<noteq> [] \<and> education r \<noteq> [] \<and> projects r \<noteq> []) \<and>
   (let r = extractResumeData jsonParse response text in
      (r = asObject (extractFallbackData text) \<or>
       (\<exists>data content cleaned parsedData.
          response = Resolved data \<and> messageContent data = Inr content \<and>
          cleanJsonResponse content = Inr cleaned \<and> jsonParse cleaned = Some parsedData \<and>
          r = decodedRecord parsedData)) \<and>
      (\<forall>data content cleaned parsedData.
          response = Resolved data \<and> messageContent data = Inr content \<and>
          cleanJsonResponse content = Inr cleaned \<and> jsonParse cleaned = Some parsedData \<and>
          parsedData \<noteq> JUndefined \<and> parsedData \<noteq> JNull \<longrightarrow>
          r = decodedRecord parsedData) \<and>
      truthy (nameValue r) \<and> truthy (emailValue r) \<and> truthy (phoneValue r) \<and>
      (truthy (linkedinValue r) \<or> linkedinValue r = JString []))"
proof -
  note f = fallback_fields_populated[of "text"]
  define r where "r = extractResumeData jsonParse response text"
  from extractResumeData_cases[of jsonParse response "text"]
  have cases: "r = asObject (extractFallbackData text) \<or>
      (\<exists>data. response = Resolved data \<and> parsedResume jsonParse data = Inr r)"
    unfolding r_def by blast
  have shape: "r = asObject (extractFallbackData text) \<or>
       (\<exists>data content cleaned parsedData.
          response = Resolved data \<and> messageContent data = Inr content \<and>
          cleanJsonResponse content = Inr cleaned \<and> jsonParse cleaned = Some parsedData \<and>
          r = decodedRecord parsedData)"
    using cases by (blast elim: parsedResume_Inr_decoded)
  have decided: "r = decodedRecord parsedData"
    if "response = Resolved data" "messageContent data = Inr content"
      "cleanJsonResponse content = Inr cleaned" "jsonParse cleaned = Some parsedData"
      "parsedData \<noteq> JUndefined" "parsedData \<noteq> JNull"
    for data content cleaned parsedData
    using parsedResume_decoded[where jsonParse = jsonParse, OF that(2-6)] that(1)
    by (simp add: r_def extractResumeData_def)
  have t: "truthy (nameValue r) \<and> truthy (emailValue r) \<and> truthy (phoneValue r) \<and>
        (truthy (linkedinValue r) \<or> linkedinValue r = JString [])"
  proof -
    from cases consider "r = asObject (extractFallbackData text)"
      | data where "parsedResume jsonParse data = Inr r"
      by blast
    then show ?thesis
    proof cases
      case 1
      with f show ?thesis by (simp add: asObject_def)
    next
      case 2
      then show ?thesis by (rule parsedResume_fields)
    qed
  qed
  from f shape decided t show ?thesis unfolding r_def Let_def by blast
qed

lemma parse_empty_object:
  "parsedResume (parsesTo ''{}'' (JObject [])) (completionOf (JString ''{}'')) =
     Inr \<lparr>nameValue = JString ''Unknown'', emailValue = JString ''unknown@email.com'',
          phoneValue = JString ''Not provided'', linkedinValue = JString [],
          skillsValue = [], experienceValue = [], educationValue = [],
          certificationsValue = [], projectsValue = []\<rparr>"
  by (simp add: parsedResume_def messageContent_completionOf parsesTo_def lastIndexOf_def
      substring_def orDefault_def)

lemma parse_numeric_name:
  \<open>parsedResume (parsesTo ''{"name":5}'' (JObject [(''name'', JNumber 5)]))
     (completionOf (JString ''{"name":5}'')) =
     Inr \<lparr>nameValue = JNumber 5, emailValue = JString ''unknown@email.com'',
          phoneValue = JString ''Not provided'', linkedinValue = JString [],
          skillsValue = [], experienceValue = [], educationValue = [],
          certificationsValue = [], projectsValue = []\<rparr>\<close>
proof -
  have c: \<open>cleanJsonResponse (JString ([] @ ''{'' @ ''"name":5'' @ ''}'' @ [])) =
      Inr (JString (''{'' @ ''"name":5'' @ ''}''))\<close>
    by (rule cleanJsonResponse_slice) simp_all
  have p: \<open>parsesTo ''{"name":5}'' (JObject [(''name'', JNumber 5)])
             (JString (''{'' @ ''"name":5'' @ ''}'')) = Some (JObject [(''name'', JNumber 5)])\<close>
    by (simp add: parsesTo_def)
  have m: \<open>messageContent (completionOf (JString ([] @ ''{'' @ ''"name":5'' @ ''}'' @ []))) =
            Inr (JString ([] @ ''{'' @ ''"name":5'' @ ''}'' @ []))\<close>
    by (rule messageContent_completionOf)
  from parsedResume_object[of _ _ _ \<open>parsesTo ''{"name":5}'' (JObject [(''name'', JNumber 5)])\<close>,
      OF m c p]
  show ?thesis by (simp add: orDefault_def)
qed

text \<open>
  The model answers with the empty object: the success path returns empty sequences of
  skills, experience, education and projects. The model answers with a number for the
  name: the success path returns the number.
\<close>

theorem primary_path_empty_sequences_counterexample:
  \<open>skillsValue (extractResumeData (parsesTo ''{}'' (JObject []))
                 (Resolved (completionOf (JString ''{}''))) ''Jane Doe'') = [] \<and>
   experienceValue (extractResumeData (parsesTo ''{}'' (JObject []))
                 (Resolved (completionOf (JString ''{}''))) ''Jane Doe'') = [] \<and>
   educationValue (extractResumeData (parsesTo ''{}'' (JObject []))
                 (Resolved (completionOf (JString ''{}''))) ''Jane Doe'') = [] \<and>
   projectsValue (extractResumeData (parsesTo ''{}'' (JObject []))
                 (Resolved (completionOf (JString ''{}''))) ''Jane Doe'') = [] \<and>
   nameValue (extractResumeData (parsesTo ''{"name":5}'' (JObject [(''name'', JNumber 5)]))
                 (Resolved (completionOf (JString ''{"name":5}''))) ''Jane Doe'') = JNumber 5\<close>
  by (simp add: extractResumeData_def parse_empty_object parse_numeric_name)

text \<open>
  A decoded object with a name, an empty email, the phone 0, an array of skills and an
  experience that is no array: the name and the skills are kept, the email and the phone
  take their sentinels, every other sequence is empty.
\<close>

theorem every_field_present_witness:
  \<open>messageContent (completionOf (JString ''{"name":"X","email":"","phone":0,"skills":["Go"],"experience":"none"}'')) = Inr (JString ''{"name":"X","email":"","phone":0,"skills":["Go"],"experience":"none"}'') \<and>
   cleanJsonResponse (JString ''{"name":"X","email":"","phone":0,"skills":["Go"],"experience":"none"}'') = Inr (JString ''{"name":"X","email":"","phone":0,"skills":["Go"],"experience":"none"}'') \<and>
   (parsesTo ''{"name":"X","email":"","phone":0,"skills":["Go"],"experience":"none"}''
      (JObject [(''name'', JString ''X''), (''email'', JString []), (''phone'', JNumber 0),
        (''skills'', JArray [JString ''Go'']), (''experience'', JString ''none'')])) (JString ''{"name":"X","email":"","phone":0,"skills":["Go"],"experience":"none"}'') = Some (JObject [(''name'', JString ''X''), (''email'', JString []), (''phone'', JNumber 0),
        (''skills'', JArray [JString ''Go'']), (''experience'', JString ''none'')]) \<and>
   (JObject [(''name'', JString ''X''), (''email'', JString []), (''phone'', JNumber 0),
        (''skills'', JArray [JString ''Go'']), (''experience'', JString ''none'')]) \<noteq> JUndefined \<and>
   (JObject [(''name'', JString ''X''), (''email'', JString []), (''phone'', JNumber 0),
        (''skills'', JArray [JString ''Go'']), (''experience'', JString ''none'')]) \<noteq> JNull \<and>
   extractResumeData (parsesTo ''{"name":"X","email":"","phone":0,"skills":["Go"],"experience":"none"}''
      (JObject [(''name'', JString ''X''), (''email'', JString []), (''phone'', JNumber 0),
        (''skills'', JArray [JString ''Go'']), (''experience'', JString ''none'')])) (Resolved (completionOf (JString ''{"name":"X","email":"","phone":0,"skills":["Go"],"experience":"none"}''))) ''Jane Doe'' =
     decodedRecord (JObject [(''name'', JString ''X''), (''email'', JString []), (''phone'', JNumber 0),
        (''skills'', JArray [JString ''Go'']), (''experience'', JString ''none'')]) \<and>
   decodedRecord (JObject [(''name'', JString ''X''), (''email'', JString []), (''phone'', JNumber 0),
        (''skills'', JArray [JString ''Go'']), (''experience'', JString ''none'')]) =
     \<lparr>nameValue = JString ''X'', emailValue = JString ''unknown@email.com'',
      phoneValue = JString ''Not provided'', linkedinValue = JString [],
      skillsValue = [JString ''Go''], experienceValue = [], educationValue = [],
      certificationsValue = [], projectsValue = []\<rparr> \<and>
   name (extractFallbackData ''Jane Doe'') = ''Jane Doe'' \<and>
   email (extractFallbackData ''Jane Doe'') \<noteq> [] \<and>
   phone (extractFallbackData ''Jane Doe'') \<noteq> [] \<and>
   skills (extractFallbackData ''Jane Doe'') \<noteq> [] \<and>
   experience (extractFallbackData ''Jane Doe'') \<noteq> [] \<and>
   education (extractFallbackData ''Jane Doe'') \<noteq> [] \<and>
   projects (extractFallbackData ''Jane Doe'') \<noteq> []\<close>
proof -
  have m: \<open>messageContent (completionOf (JString ''{"name":"X","email":"","phone":0,"skills":["Go"],"experience":"none"}'')) = Inr (JString ''{"name":"X","email":"","phone":0,"skills":["Go"],"experience":"none"}'')\<close>
    by (rule messageContent_completionOf)
  have c: \<open>cleanJsonResponse (JString ''{"name":"X","email":"","phone":0,"skills":["Go"],"experience":"none"}'') = Inr (JString ''{"name":"X","email":"","phone":0,"skills":["Go"],"experience":"none"}'')\<close>
    using cleanJsonResponse_slice[of "[]" "[]" \<open>''"name":"X","email":"","phone":0,"skills":["Go"],"experience":"none"''\<close>]
    by simp
  have p: \<open>(parsesTo ''{"name":"X","email":"","phone":0,"skills":["Go"],"experience":"none"}''
      (JObject [(''name'', JString ''X''), (''email'', JString []), (''phone'', JNumber 0),
        (''skills'', JArray [JString ''Go'']), (''experience'', JString ''none'')])) (JString ''{"name":"X","email":"","phone":0,"skills":["Go"],"experience":"none"}'') = Some (JObject [(''name'', JString ''X''), (''email'', JString []), (''phone'', JNumber 0),
        (''skills'', JArray [JString ''Go'']), (''experience'', JString ''none'')])\<close>
    by (simp add: parsesTo_def)
  have u: \<open>(JObject [(''name'', JString ''X''), (''email'', JString []), (''phone'', JNumber 0),
        (''skills'', JArray [JString ''Go'']), (''experience'', JString ''none'')]) \<noteq> JUndefined\<close>
    \<open>(JObject [(''name'', JString ''X''), (''email'', JString []), (''phone'', JNumber 0),
        (''skills'', JArray [JString ''Go'']), (''experience'', JString ''none'')]) \<noteq> JNull\<close>
    by simp_all
  note t = every_field_present[of \<open>''Jane Doe''\<close> \<open>(parsesTo ''{"name":"X","email":"","phone":0,"skills":["Go"],"experience":"none"}''
      (JObject [(''name'', JString ''X''), (''email'', JString []), (''phone'', JNumber 0),
        (''skills'', JArray [JString ''Go'']), (''experience'', JString ''none'')]))\<close>
      \<open>Resolved (completionOf (JString ''{"name":"X","email":"","phone":0,"skills":["Go"],"experience":"none"}''))\<close>, unfolded Let_def]
  from t m c p u have e: \<open>extractResumeData (parsesTo ''{"name":"X","email":"","phone":0,"skills":["Go"],"experience":"none"}''
      (JObject [(''name'', JString ''X''), (''email'', JString []), (''phone'', JNumber 0),
        (''skills'', JArray [JString ''Go'']), (''experience'', JString ''none'')])) (Resolved (completionOf (JString ''{"name":"X","email":"","phone":0,"skills":["Go"],"experience":"none"}''))) ''Jane Doe'' =
     decodedRecord (JObject [(''name'', JString ''X''), (''email'', JString []), (''phone'', JNumber 0),
        (''skills'', JArray [JString ''Go'']), (''experience'', JString ''none'')])\<close>
    by blast
  have d: \<open>decodedRecord (JObject [(''name'', JString ''X''), (''email'', JString []), (''phone'', JNumber 0),
        (''skills'', JArray [JString ''Go'']), (''experience'', JString ''none'')]) =
     \<lparr>nameValue = JString ''X'', emailValue = JString ''unknown@email.com'',
      phoneValue = JString ''Not provided'', linkedinValue = JString [],
      skillsValue = [JString ''Go''], experienceValue = [], educationValue = [],
      certificationsValue = [], projectsValue = []\<rparr>\<close>
    by (simp add: decodedRecord_def orSentinel_def falsy_def decodedField_def decodedArray_def)
  have n: "name (extractFallbackData ''Jane Doe'') = ''Jane Doe''"
    by (simp add: name_field splitLines_def trim_eval orElse_def)
  from t have f: "email (extractFallbackData ''Jane Doe'') \<noteq> []"
    "phone (extractFallbackData ''Jane Doe'') \<noteq> []"
    "skills (extractFallbackData ''Jane Doe'') \<noteq> []"
    "experience (extractFallbackData ''Jane Doe'') \<noteq> []"
    "education (extractFallbackData ''Jane Doe'') \<noteq> []"
    "projects (extractFallbackData ''Jane Doe'') \<noteq> []"
    by blast+
  from m c p u e d n f show ?thesis by (intro conjI)
qed

text \<open>
  C3. When the request is rejected (no connection, a timeout, a status outside 2xx), when
  the body is not JSON, when the sanitized content does not decode, and whenever the
  success path throws, \<^verbatim>\<open>extractResumeData\<close> returns the fallback extraction of the
  same text; and its result is either that record or the record built from the
  response alone, never a mixture.
\<close>

theorem failure_delegates_to_fallback:
  "extractResumeData jsonParse Rejected text = asObject (extractFallbackData text) \<and>
   extractResumeData jsonParse (Resolved (JString body)) text = asObject (extractFallbackData text) \<and>
   (messageContent data = Inr content \<and> cleanJsonResponse content = Inr cleaned \<and>
      jsonParse cleaned = None \<longrightarrow>
      extractResumeData jsonParse (Resolved data) text = asObject (extractFallbackData text)) \<and>
   (parsedResume jsonParse data = Inl e \<longrightarrow>
      extractResumeData jsonParse (Resolved data) text = asObject (extractFallbackData text)) \<and>
   (extractResumeData jsonParse response text = asObject (extractFallbackData text) \<or>
      (\<exists>data. response = Resolved data \<and>
         parsedResume jsonParse data = Inr (extractResumeData jsonParse response text)))"
proof -
  have a: "extractResumeData jsonParse Rejected text = asObject (extractFallbackData text)"
    by (simp add: extractResumeData_def)
  have b: "extractResumeData jsonParse (Resolved (JString body)) text =
             asObject (extractFallbackData text)"
    by (simp add: extractResumeData_def parsedResume_def messageContent_def)
  have c: "extractResumeData jsonParse (Resolved data) text = asObject (extractFallbackData text)"
    if "messageContent data = Inr content" "cleanJsonResponse content = Inr cleaned"
      "jsonParse cleaned = None"
    using that by (simp add: extractResumeData_def parsedResume_def)
  have d: "extractResumeData jsonParse (Resolved data) text = asObject (extractFallbackData text)"
    if "parsedResume jsonParse data = Inl e"
    using that by (simp add: extractResumeData_def)
  from a b c d extractResumeData_cases[of jsonParse response "text"] show ?thesis by blast
qed


theorem failure_delegates_to_fallback_witness:
  "messageContent (completionOf (JString ''not json'')) = Inr (JString ''not json'') \<and>
   cleanJsonResponse (JString ''not json'') = Inr (JString ''not json'') \<and>
   parsesTo ''{}'' (JObject []) (JString ''not json'') = None \<and>
   extractResumeData (parsesTo ''{}'' (JObject [])) (Resolved (completionOf (JString ''not json'')))
     ''Jane Doe'' = asObject (extractFallbackData ''Jane Doe'') \<and>
   parsedResume (parsesTo ''{}'' (JObject [])) JNull = Inl TypeError \<and>
   extractResumeData (parsesTo ''{}'' (JObject [])) (Resolved JNull) ''Jane Doe'' =
     asObject (extractFallbackData ''Jane Doe'')"
proof -
  have a: "messageContent (completionOf (JString ''not json'')) = Inr (JString ''not json'')"
    by (rule messageContent_completionOf)
  have b: "cleanJsonResponse (JString ''not json'') = Inr (JString ''not json'')"
    by (simp add: lastIndexOf_def)
  have c: "parsesTo ''{}'' (JObject []) (JString ''not json'') = None"
    by (simp add: parsesTo_def)
  have d: "parsedResume (parsesTo ''{}'' (JObject [])) JNull = Inl TypeError"
    by (simp add: parsedResume_def messageContent_def)
  from a b c
    failure_delegates_to_fallback[of "parsesTo ''{}'' (JObject [])" "''Jane Doe''" _
      "completionOf (JString ''not json'')" "JString ''not json''" "JString ''not json''"]
  have e: "extractResumeData (parsesTo ''{}'' (JObject []))
             (Resolved (completionOf (JString ''not json''))) ''Jane Doe'' =
           asObject (extractFallbackData ''Jane Doe'')"
    by blast
  from d failure_delegates_to_fallback[of "parsesTo ''{}'' (JObject [])" "''Jane Doe''" _ JNull
      _ _ TypeError]
  have f: "extractResumeData (parsesTo ''{}'' (JObject [])) (Resolved JNull) ''Jane Doe'' =
           asObject (extractFallbackData ''Jane Doe'')"
    by blast
  from a b c d e f show ?thesis by blast
qed

text \<open>
  C2, as the code has it. A content that wraps an object in prose or code fences, with no
  opening brace before the object and no closing brace after it, is sanitized to exactly
  the text from the first opening brace to the last closing brace; when that text decodes
  to an object, an absent (or falsy) name, email, phone or LinkedIn address is replaced by
  the sentinel of the fallback path, and an absent (or non-array) skills, experience,
  education, certifications or projects field becomes the empty sequence.
\<close>

theorem sanitize_then_backfill:
  assumes "CHR ''{'' \<notin> set before" and "CHR ''}'' \<notin> set after"
    and "jsonParse (JString (''{'' @ inner @ ''}'')) = Some (JObject props)"
  shows
    "cleanJsonResponse (JString (before @ ''{'' @ inner @ ''}'' @ after)) =
       Inr (JString (''{'' @ inner @ ''}'')) \<and>
     extractResumeData jsonParse
         (Resolved (completionOf (JString (before @ ''{'' @ inner @ ''}'' @ after)))) text =
       (let field = (\<lambda>key. case map_of props key of None \<Rightarrow> JUndefined | Some v \<Rightarrow> v);
            sentinels = extractFallbackData []
        in \<lparr>nameValue = orDefault (field ''name'') (JString (name sentinels)),
             emailValue = orDefault (field ''email'') (JString (email sentinels)),
             phoneValue = orDefault (field ''phone'') (JString (phone sentinels)),
             linkedinValue = orDefault (field ''linkedin'') (JString (linkedin sentinels)),
             skillsValue = arrayOrEmpty (field ''skills''),
             experienceValue = arrayOrEmpty (field ''experience''),
             educationValue = arrayOrEmpty (field ''education''),
             certificationsValue = arrayOrEmpty (field ''certifications''),
             projectsValue = arrayOrEmpty (field ''projects'')\<rparr>)"
proof -
  from assms(1,2) have c:
    "cleanJsonResponse (JString (before @ ''{'' @ inner @ ''}'' @ after)) =
       Inr (JString (''{'' @ inner @ ''}''))"
    by (rule cleanJsonResponse_slice)
  have "parsedResume jsonParse
          (completionOf (JString (before @ ''{'' @ inner @ ''}'' @ after))) =
     Inr \<lparr>nameValue = orDefault (optProp (JObject props) ''name'') (JString ''Unknown''),
          emailValue = orDefault (optProp (JObject props) ''email'') (JString ''unknown@email.com''),
          phoneValue = orDefault (optProp (JObject props) ''phone'') (JString ''Not provided''),
          linkedinValue = orDefault (optProp (JObject props) ''linkedin'') (JString []),
          skillsValue = arrayOrEmpty (optProp (JObject props) ''skills''),
          experienceValue = arrayOrEmpty (optProp (JObject props) ''experience''),
          educationValue = arrayOrEmpty (optProp (JObject props) ''education''),
          certificationsValue = arrayOrEmpty (optProp (JObject props) ''certifications''),
          projectsValue = arrayOrEmpty (optProp (JObject props) ''projects'')\<rparr>"
    using messageContent_completionOf c assms(3) by (rule parsedResume_object)
  with c show ?thesis
    by (simp add: extractResumeData_def fallback_on_empty Let_def)
qed


text \<open>
  The content of the specification's example decodes to an object with a name only: the
  skills of the result are empty, not the default triple of the fallback path.
\<close>

lemma fenced_answer_parsed:
  \<open>parsedResume (parsesTo ''{"name":"X"}'' (JObject [(''name'', JString ''X'')]))
     (completionOf (JString (''Here is the result:'' @ [CHR 0x0A] @ ''```json'' @ [CHR 0x0A] @
        ''{"name":"X"}'' @ [CHR 0x0A] @ ''```'' @ [CHR 0x0A] @ ''Thanks!''))) =
   Inr \<lparr>nameValue = JString ''X'', emailValue = JString ''unknown@email.com'',
        phoneValue = JString ''Not provided'', linkedinValue = JString [],
        skillsValue = [], experienceValue = [], educationValue = [],
        certificationsValue = [], projectsValue = []\<rparr>\<close>
proof -
  have c: \<open>cleanJsonResponse (JString ((''Here is the result:'' @ [CHR 0x0A] @ ''```json'' @ [CHR 0x0A]) @
        ''{'' @ ''"name":"X"'' @ ''}'' @ ([CHR 0x0A] @ ''```'' @ [CHR 0x0A] @ ''Thanks!''))) =
      Inr (JString (''{'' @ ''"name":"X"'' @ ''}''))\<close>
    by (rule cleanJsonResponse_slice) simp_all
  have p: \<open>parsesTo ''{"name":"X"}'' (JObject [(''name'', JString ''X'')])
             (JString (''{'' @ ''"name":"X"'' @ ''}'')) = Some (JObject [(''name'', JString ''X'')])\<close>
    by (simp add: parsesTo_def)
  from parsedResume_object[of _ _ _ \<open>parsesTo ''{"name":"X"}'' (JObject [(''name'', JString ''X'')])\<close>,
      OF messageContent_completionOf c p]
  show ?thesis by (simp add: orDefault_def)
qed

theorem backfill_sequences_empty_counterexample:
  \<open>skillsValue (extractResumeData (parsesTo ''{"name":"X"}'' (JObject [(''name'', JString ''X'')]))
       (Resolved (completionOf (JString (''Here is the result:'' @ [CHR 0x0A] @ ''```json'' @
          [CHR 0x0A] @ ''{"name":"X"}'' @ [CHR 0x0A] @ ''```'' @ [CHR 0x0A] @ ''Thanks!''))))
       []) = [] \<and>
   skillsValue (asObject (extractFallbackData [])) =
     [JString ''JavaScript'', JString ''React'', JString ''Node.js'']\<close>
proof -
  have \<open>extractResumeData (parsesTo ''{"name":"X"}'' (JObject [(''name'', JString ''X'')]))
       (Resolved (completionOf (JString (''Here is the result:'' @ [CHR 0x0A] @ ''```json'' @
          [CHR 0x0A] @ ''{"name":"X"}'' @ [CHR 0x0A] @ ''```'' @ [CHR 0x0A] @ ''Thanks!''))))
       [] =
     \<lparr>nameValue = JString ''X'', emailValue = JString ''unknown@email.com'',
      phoneValue = JString ''Not provided'', linkedinValue = JString [],
      skillsValue = [], experienceValue = [], educationValue = [],
      certificationsValue = [], projectsValue = []\<rparr>\<close>
    by (simp only: extractResumeData_def outcome.case fenced_answer_parsed sum.case)
  then show ?thesis by (simp add: asObject_def fallback_on_empty)
qed

theorem sanitize_then_backfill_witness:
  \<open>CHR ''{'' \<notin> set (''Here is the result:'' @ [CHR 0x0A] @ ''```json'' @ [CHR 0x0A]) \<and>
   CHR ''}'' \<notin> set ([CHR 0x0A] @ ''```'' @ [CHR 0x0A] @ ''Thanks!'') \<and>
   parsesTo ''{"name":"X"}'' (JObject [(''name'', JString ''X'')]) (JString ''{"name":"X"}'') =
     Some (JObject [(''name'', JString ''X'')]) \<and>
   cleanJsonResponse (JString (''Here is the result:'' @ [CHR 0x0A] @ ''```json'' @ [CHR 0x0A] @
       ''{"name":"X"}'' @ [CHR 0x0A] @ ''```'' @ [CHR 0x0A] @ ''Thanks!'')) =
     Inr (JString ''{"name":"X"}'') \<and>
   extractResumeData (parsesTo ''{"name":"X"}'' (JObject [(''name'', JString ''X'')]))
       (Resolved (completionOf (JString (''Here is the result:'' @ [CHR 0x0A] @ ''```json'' @
          [CHR 0x0A] @ ''{"name":"X"}'' @ [CHR 0x0A] @ ''```'' @ [CHR 0x0A] @ ''Thanks!''))))
       ''Jane Doe'' =
     \<lparr>nameValue = JString ''X'', emailValue = JString ''unknown@email.com'',
      phoneValue = JString ''Not provided'', linkedinValue = JString [],
      skillsValue = [], experienceValue = [], educationValue = [],
      certificationsValue = [], projectsValue = []\<rparr>\<close>
proof -
  have b: \<open>CHR ''{'' \<notin> set (''Here is the result:'' @ [CHR 0x0A] @ ''```json'' @ [CHR 0x0A])\<close>
    by simp
  have a: \<open>CHR ''}'' \<notin> set ([CHR 0x0A] @ ''```'' @ [CHR 0x0A] @ ''Thanks!'')\<close>
    by simp
  have p: \<open>parsesTo ''{"name":"X"}'' (JObject [(''name'', JString ''X'')])
             (JString (''{'' @ ''"name":"X"'' @ ''}'')) = Some (JObject [(''name'', JString ''X'')])\<close>
    by (simp add: parsesTo_def)
  from sanitize_then_backfill[
      of \<open>''Here is the result:'' @ [CHR 0x0A] @ ''```json'' @ [CHR 0x0A]\<close>
        \<open>[CHR 0x0A] @ ''```'' @ [CHR 0x0A] @ ''Thanks!''\<close>
        \<open>parsesTo ''{"name":"X"}'' (JObject [(''name'', JString ''X'')])\<close>
        \<open>''"name":"X"''\<close> \<open>[(''name'', JString ''X'')]\<close> \<open>''Jane Doe''\<close>,
      OF b a p] b a p
  show ?thesis
    by (simp add: fallback_on_empty orDefault_def Let_def)
qed

section \<open>Candidate brief generator: properties\<close>

lemma templateBrief_nonempty: "templateBrief resumeData \<noteq> []"
  by (simp add: templateBrief_def)

text \<open>
  C4, as the code has it. The brief generator returns the templated sentence when the
  request is rejected (no connection, a status outside 2xx) and when reading the response
  throws; it returns the trimmed content when the content is a string. The template is
  never empty, and for a record with a titled first experience and a first education it
  is the sentence built from the name, that title, the first three skills, the number of
  experience entries, that degree and the first two skills.
\<close>

theorem brief_trimmed_or_template:
  "generateCandidateBrief Rejected resumeData = JString (templateBrief resumeData) \<and>
   (messageContent data = Inl e \<longrightarrow>
      generateCandidateBrief (Resolved data) resumeData = JString (templateBrief resumeData)) \<and>
   (messageContent data = Inr content \<and> trimmed content = Inl e \<longrightarrow>
      generateCandidateBrief (Resolved data) resumeData = JString (templateBrief resumeData)) \<and>
   (messageContent data = Inr (JString s) \<longrightarrow>
      generateCandidateBrief (Resolved data) resumeData = JString (trim s)) \<and>
   templateBrief resumeData \<noteq> [] \<and>
   (experience resumeData = x # xs \<and> title x \<noteq> [] \<and> education resumeData = d # ds \<longrightarrow>
      templateBrief resumeData =
        name resumeData @ '' is a qualified '' @ title x @ '' with expertise in '' @
        join '', '' (take 3 (skills resumeData)) @ ''. They have '' @
        decimal (length (experience resumeData)) @ ''+ years of experience and hold a '' @
        degree d @
        ''. Strong technical background with proven experience in software development and modern technologies. Excellent candidate for technical roles requiring '' @
        join '' and '' (take 2 (skills resumeData)) @ '' expertise.'')"
  by (simp add: generateCandidateBrief_def templateBrief_def orElse_def)

text \<open>
  A content of white space gives the empty brief, and a response without any choice
  gives \<^verbatim>\<open>undefined\<close>: neither is the template.
\<close>

theorem brief_empty_or_undefined_counterexample:
  "generateCandidateBrief (Resolved (completionOf (JString ''   ''))) (extractFallbackData []) =
     JString [] \<and>
   generateCandidateBrief (Resolved (JObject [(''choices'', JArray [])])) (extractFallbackData []) =
     JUndefined"
proof -
  have "generateCandidateBrief (Resolved (completionOf (JString ''   ''))) (extractFallbackData []) =
     JString []"
    by (simp add: generateCandidateBrief_def messageContent_completionOf trim_eval)
  moreover have "messageContent (JObject [(''choices'', JArray [])]) = Inr JUndefined"
    by (simp add: messageContent_def)
  then have "generateCandidateBrief (Resolved (JObject [(''choices'', JArray [])]))
     (extractFallbackData []) = JUndefined"
    by (simp add: generateCandidateBrief_def)
  ultimately show ?thesis by simp
qed

theorem brief_trimmed_or_template_witness:
  "generateCandidateBrief (Resolved (completionOf (JString ''  Great fit.  '')))
     (extractFallbackData []) = JString ''Great fit.'' \<and>
   messageContent JNull = Inl TypeError \<and>
   generateCandidateBrief (Resolved JNull) (extractFallbackData []) =
     JString (templateBrief (extractFallbackData [])) \<and>
   messageContent (completionOf (JNumber 7)) = Inr (JNumber 7) \<and>
   trimmed (JNumber 7) = Inl TypeError \<and>
   generateCandidateBrief (Resolved (completionOf (JNumber 7))) (extractFallbackData []) =
     JString (templateBrief (extractFallbackData [])) \<and>
   templateBrief (extractFallbackData []) =
     ''Unknown is a qualified Software Engineer with expertise in JavaScript, React, Node.js. They have 1+ years of experience and hold a Bachelor of Science. Strong technical background with proven experience in software development and modern technologies. Excellent candidate for technical roles requiring JavaScript and React expertise.''"
proof -
  note t = brief_trimmed_or_template[of "extractFallbackData []"]
  have c: "messageContent (completionOf (JString ''  Great fit.  '')) = Inr (JString ''  Great fit.  '')"
    by (rule messageContent_completionOf)
  from c t[of "completionOf (JString ''  Great fit.  '')" _ _ "''  Great fit.  ''"]
  have 1: "generateCandidateBrief (Resolved (completionOf (JString ''  Great fit.  '')))
     (extractFallbackData []) = JString (trim ''  Great fit.  '')"
    by blast
  have 2: "trim ''  Great fit.  '' = ''Great fit.''" by (simp add: trim_eval)
  have 3: "messageContent JNull = Inl TypeError" by (simp add: messageContent_def)
  from 3 t[of JNull TypeError]
  have 4: "generateCandidateBrief (Resolved JNull) (extractFallbackData []) =
     JString (templateBrief (extractFallbackData []))"
    by blast
  have 5: "messageContent (completionOf (JNumber 7)) = Inr (JNumber 7)"
    by (rule messageContent_completionOf)
  have 6: "trimmed (JNumber 7) = Inl TypeError" by simp
  from 5 6 t[of "completionOf (JNumber 7)" TypeError "JNumber 7"]
  have 7: "generateCandidateBrief (Resolved (completionOf (JNumber 7))) (extractFallbackData []) =
     JString (templateBrief (extractFallbackData []))"
    by blast
  have d: "decimal (Suc 0) = ''1''" by (simp add: decimal.simps char_of_eq_iff)
  have 8: "experience (extractFallbackData []) =
      [\<lparr>title = ''Software Engineer'', company = ''Tech Company'',
        duration = ''2021 - Present'',
        description = ''Developed web applications using modern technologies''\<rparr>] \<and>
     title \<lparr>title = ''Software Engineer'', company = ''Tech Company'',
        duration = ''2021 - Present'',
        description = ''Developed web applications using modern technologies''\<rparr> \<noteq> [] \<and>
     education (extractFallbackData []) =
      [\<lparr>degree = ''Bachelor of Science'', school = ''University'', year = ''2020'',
          cgpa = ''3.5'', stream = ''Computer Science''\<rparr>]"
    by (simp add: fallback_on_empty)
  from 8 t[of _ _ _ _
      "\<lparr>title = ''Software Engineer'', company = ''Tech Company'',
        duration = ''2021 - Present'',
        description = ''Developed web applications using modern technologies''\<rparr>" "[]"
      "\<lparr>degree = ''Bachelor of Science'', school = ''University'', year = ''2020'',
          cgpa = ''3.5'', stream = ''Computer Science''\<rparr>" "[]"]
  have 9: "templateBrief (extractFallbackData []) =
        name (extractFallbackData []) @ '' is a qualified '' @ ''Software Engineer'' @
        '' with expertise in '' @
        join '', '' (take 3 (skills (extractFallbackData []))) @ ''. They have '' @
        decimal (length (experience (extractFallbackData []))) @
        ''+ years of experience and hold a '' @ ''Bachelor of Science'' @
        ''. Strong technical background with proven experience in software development and modern technologies. Excellent candidate for technical roles requiring '' @
        join '' and '' (take 2 (skills (extractFallbackData []))) @ '' expertise.''"
    by simp
  have 10: "templateBrief (extractFallbackData []) =
     ''Unknown is a qualified Software Engineer with expertise in JavaScript, React, Node.js. They have 1+ years of experience and hold a Bachelor of Science. Strong technical background with proven experience in software development and modern technologies. Excellent candidate for technical roles requiring JavaScript and React expertise.''"
    unfolding 9 by (simp add: fallback_on_empty d)
  from 1 2 3 4 5 6 7 10 show ?thesis by simp
qed

section \<open>The service in its environment: properties\<close>

lemma extractResumeDataIn_result:
  "fst (extractResumeDataIn jsonParse post resumeText w) =
     extractResumeData jsonParse (post (apiUrl w) (apiKey w) resumeText) resumeText"
  by (simp add: extractResumeDataIn_def extractResumeData_def extractFallbackDataIn_def
      unchanged_def logError_def Let_def split: outcome.splits sum.splits)

lemma extractResumeDataIn_logs:
  "errorLog (snd (extractResumeDataIn jsonParse (\<lambda>url key prompt. Rejected) resumeText w)) =
     errorLog w @ [''Resume extraction failed:'']"
  by (simp add: extractResumeDataIn_def extractFallbackDataIn_def unchanged_def logError_def)



end
